theory Spec2Isabelle
  imports Main
begin

section \<open>The declaration and type model read by TypeCheckInvertible.cpp\<close>

text \<open>
  A shallow embedding of \<^verbatim>\<open>lib/Sema/TypeCheckInvertible.cpp\<close>: the check that a
  conformance to an invertible protocol (\<^verbatim>\<open>Copyable\<close>, \<^verbatim>\<open>Escapable\<close>) fits the
  nominal type that declares it. The file reads the AST through a handful of
  queries; each query that the file calls is a field of the record that stands
  for the queried object. The diagnostic engine is modelled as the list of
  diagnostics emitted, in emission order.
\<close>

text \<open>A \<^verbatim>\<open>SourceLoc\<close> is either invalid or a position in a buffer.\<close>

datatype SourceLoc = InvalidLoc | Loc nat

fun isValid :: "SourceLoc \<Rightarrow> bool" where
  "isValid InvalidLoc = False"
| "isValid (Loc _) = True"

datatype InvertibleProtocolKind = Copyable | Escapable

text \<open>
  \<^verbatim>\<open>InvertibleProtocolSet\<close> is a set of \<^verbatim>\<open>InvertibleProtocolKind\<close> with
  \<^verbatim>\<open>insert\<close> and \<^verbatim>\<open>contains\<close>.
\<close>

type_synonym InvertibleProtocolSet = "InvertibleProtocolKind set"

datatype KnownProtocolKind = KPK_Copyable | KPK_Escapable | KPK_Other string

text \<open>
  Modelled from the spec: \<^verbatim>\<open>getKnownProtocolKind\<close> is declared outside this file.
  Each of the two capabilities is one known protocol; the enumerators keep the
  names the source uses.
\<close>

fun getKnownProtocolKind :: "InvertibleProtocolKind \<Rightarrow> KnownProtocolKind" where
  "getKnownProtocolKind Copyable = KPK_Copyable"
| "getKnownProtocolKind Escapable = KPK_Escapable"

text \<open>
  Modelled from the spec: \<^verbatim>\<open>getProtocolName\<close> is declared outside this file. It
  gives the capability's name as it is written in an inheritance clause.
\<close>

fun getProtocolName :: "KnownProtocolKind \<Rightarrow> string" where
  "getProtocolName KPK_Copyable = ''Copyable''"
| "getProtocolName KPK_Escapable = ''Escapable''"
| "getProtocolName (KPK_Other n) = n"

text \<open>A generic parameter declaration, with the module it is declared in.\<close>

record GenericTypeParamDecl =
  gpName :: string
  gpModuleContext :: nat

text \<open>
  The interface type of an archetype: a generic parameter type (whose
  declaration may be absent) or some other type, such as a dependent member.
\<close>

datatype InterfaceType =
    GenericTypeParamType "GenericTypeParamDecl option"
  | OtherInterfaceType

text \<open>
  What \<^verbatim>\<open>getAnyNominal\<close> of a type returns: a nominal declaration, of which
  this file reads the location only.
\<close>

record NominalRef =
  nomName :: string
  nomLoc :: SourceLoc

datatype TypeKind =
    ArchetypeType InterfaceType
  | NominalType NominalRef
  | StructuralType

text \<open>
  A \<^verbatim>\<open>Type\<close>, with the four queries the file makes of it: \<^verbatim>\<open>hasError\<close>,
  \<^verbatim>\<open>isNoncopyable\<close>, \<^verbatim>\<open>isEscapable\<close>, and what kind of type it is
  (\<^verbatim>\<open>getAs<ArchetypeType>\<close>, \<^verbatim>\<open>getAnyNominal\<close>).
\<close>

record Type =
  typeName :: string
  hasError :: bool
  isNoncopyable :: bool
  isEscapable :: bool
  typeKind :: TypeKind

record VarDecl =
  varName :: string
  valueInterfaceType :: Type

record EnumElementDecl =
  elementName :: string
  hasAssociatedValues :: bool
  argumentInterfaceType :: Type

record EnumCaseDecl =
  elements :: "EnumElementDecl list"

record DestructorDecl =
  deinitLoc :: SourceLoc

text \<open>A \<^verbatim>\<open>ValueDecl\<close> that holds storage: a stored property or an enum element.\<close>

datatype ValueDecl = VarDeclStorage VarDecl | EnumElementStorage EnumElementDecl

fun getName :: "ValueDecl \<Rightarrow> string" where
  "getName (VarDeclStorage v) = varName v"
| "getName (EnumElementStorage e) = elementName e"

datatype DeclKind = StructDecl | EnumDecl | ClassDecl | ProtocolDecl | BuiltinTupleDecl

datatype DeclAttribute = MoveOnlyAttr | NonEscapableAttr | OtherAttr string

datatype Feature = MoveOnlyClasses | OtherFeature string

record ASTContext =
  langOptsFeatures :: "Feature list"

definition hasFeature :: "ASTContext \<Rightarrow> Feature \<Rightarrow> bool" where
  "hasFeature ctx f = (f \<in> set (langOptsFeatures ctx))"

text \<open>
  An entry of an inheritance clause: a suppressed invertible protocol
  (\<^verbatim>\<open>~Copyable\<close>) or anything else, with the location where the entry ends.
\<close>

datatype InheritedType = InverseOf InvertibleProtocolKind | InheritedOther string

record InheritedEntry =
  inheritedType :: InheritedType
  entryEndLoc :: SourceLoc

record NominalTypeDecl =
  declKind :: DeclKind
  declName :: string
  declLoc :: SourceLoc
  inherited :: "InheritedEntry list"
  bracesStart :: SourceLoc
  attrs :: "DeclAttribute list"
  storedProperties :: "VarDecl list"
  allCases :: "EnumCaseDecl list"
  valueTypeDestructor :: "DestructorDecl option"
  parentModule :: nat
  astContext :: ASTContext

definition hasAttribute :: "NominalTypeDecl \<Rightarrow> DeclAttribute \<Rightarrow> bool" where
  "hasAttribute nominal a = (a \<in> set (attrs nominal))"

text \<open>
  \<^verbatim>\<open>nominal->getInherited().getEndLoc()\<close>: where the last entry of the
  inheritance clause ends. The file calls it on a clause that is not empty.
\<close>

definition getInheritedEndLoc :: "NominalTypeDecl \<Rightarrow> SourceLoc" where
  "getInheritedEndLoc nominal =
     (case inherited nominal of [] \<Rightarrow> InvalidLoc | es \<Rightarrow> entryEndLoc (last es))"

text \<open>
  Modelled from the spec: \<^verbatim>\<open>getDirectlyInheritedNominalTypeDecls\<close> is declared
  outside this file. Of its results the file keeps only the out-parameter
  \<^verbatim>\<open>inverses\<close>: the capabilities suppressed by an inverse annotation in the
  declaration's inheritance clause.
\<close>

fun inheritedInverses :: "InheritedEntry list \<Rightarrow> InvertibleProtocolSet" where
  "inheritedInverses [] = {}"
| "inheritedInverses (e # es) =
     (case inheritedType e of
        InverseOf ip \<Rightarrow> insert ip (inheritedInverses es)
      | InheritedOther _ \<Rightarrow> inheritedInverses es)"

definition getDirectlyInheritedNominalTypeDecls :: "NominalTypeDecl \<Rightarrow> InvertibleProtocolSet" where
  "getDirectlyInheritedNominalTypeDecls nominal = inheritedInverses (inherited nominal)"

text \<open>
  A declaration context: the nominal type it extends or declares, and the
  substitution of its generic environment (\<^verbatim>\<open>mapTypeIntoContext\<close>), which is
  defined outside this file and therefore a parameter.
\<close>

record DeclContext =
  selfNominalTypeDecl :: NominalTypeDecl
  mapTypeIntoContext :: "Type \<Rightarrow> Type"

type_synonym Requirement = string

text \<open>
  A conformance is a \<^verbatim>\<open>NormalProtocolConformance\<close>, with a location and its
  conditional requirements, or one of the other kinds (specialized, inherited,
  builtin), of which the file reads the protocol only.
\<close>

datatype ProtocolConformance =
    NormalProtocolConformance KnownProtocolKind SourceLoc "Requirement list"
  | OtherProtocolConformance KnownProtocolKind

fun getProtocol :: "ProtocolConformance \<Rightarrow> KnownProtocolKind" where
  "getProtocol (NormalProtocolConformance p _ _) = p"
| "getProtocol (OtherProtocolConformance p) = p"

section \<open>Diagnostics\<close>

datatype DiagID =
    add_inverse
  | note_inverse_preventing_conformance
  | note_inverse_preventing_conformance_explicit
  | inverse_but_also_conforms
  | copyable_illegal_deinit
  | inverse_type_member_in_conforming_type

text \<open>Where a diagnostic is anchored: at a location, or at a declaration.\<close>

datatype DiagAnchor =
    AtLoc SourceLoc
  | AtNominal NominalRef
  | AtStorage ValueDecl
  | AtDestructor DestructorDecl
  | AtGenericParam GenericTypeParamDecl

datatype DiagArg =
    ArgNominal NominalRef
  | ArgType Type
  | ArgBool bool
  | ArgIdentifier string
  | ArgString string

datatype FixIt = fixItInsert SourceLoc string | fixItInsertAfter SourceLoc string

record Diagnostic =
  diagAnchor :: DiagAnchor
  diagID :: DiagID
  diagArgs :: "DiagArg list"
  fixIts :: "FixIt list"

definition diagnose :: "DiagAnchor \<Rightarrow> DiagID \<Rightarrow> DiagArg list \<Rightarrow> Diagnostic" where
  "diagnose anchor d as = \<lparr>diagAnchor = anchor, diagID = d, diagArgs = as, fixIts = []\<rparr>"

text \<open>The declaration itself, as an anchor or an argument of a diagnostic.\<close>

definition nominalRef :: "NominalTypeDecl \<Rightarrow> NominalRef" where
  "nominalRef nominal = \<lparr>nomName = declName nominal, nomLoc = declLoc nominal\<rparr>"

section \<open>Diagnostic utilities\<close>

text \<open>\<^verbatim>\<open>addConformanceFixIt\<close>: the text edit that writes the (inverse) conformance.\<close>

definition addConformanceFixIt ::
  "NominalTypeDecl \<Rightarrow> Diagnostic \<Rightarrow> KnownProtocolKind \<Rightarrow> bool \<Rightarrow> Diagnostic" where
  "addConformanceFixIt nominal diag proto isInverse =
     (if inherited nominal = [] then
        (let fixItLoc = bracesStart nominal;
             text = '': '' @ (if isInverse then ''~'' else []) @ getProtocolName proto
         in diag\<lparr>fixIts := fixIts diag @ [fixItInsert fixItLoc text]\<rparr>)
      else
        (let fixItLoc = getInheritedEndLoc nominal;
             text = '', '' @ (if isInverse then ''~'' else []) @ getProtocolName proto
         in diag\<lparr>fixIts := fixIts diag @ [fixItInsertAfter fixItLoc text]\<rparr>))"

definition emitAdviceToApplyInverseAfter ::
  "InvertibleProtocolKind \<Rightarrow> bool \<Rightarrow> NominalTypeDecl \<Rightarrow> Diagnostic list" where
  "emitAdviceToApplyInverseAfter ip canAddInverse nominal =
     (let kp = getKnownProtocolKind ip in
      if canAddInverse then
        (let diag = diagnose (AtNominal (nominalRef nominal)) add_inverse
                      [ArgNominal (nominalRef nominal), ArgString (getProtocolName kp)]
         in [addConformanceFixIt nominal diag kp True])
      else [])"

definition tryEmitContainmentFixits ::
  "NominalTypeDecl \<Rightarrow> bool \<Rightarrow> Type \<Rightarrow> InvertibleProtocolKind \<Rightarrow> Diagnostic list" where
  "tryEmitContainmentFixits enclosingNom canAddInverse nonConformingTy ip =
     (let module = parentModule enclosingNom;
          kp = getKnownProtocolKind ip
      in emitAdviceToApplyInverseAfter ip canAddInverse enclosingNom @
         (case typeKind nonConformingTy of
            ArchetypeType interfaceType \<Rightarrow>
              (case interfaceType of
                 GenericTypeParamType (Some genericParamTypeDecl) \<Rightarrow>
                   (if gpModuleContext genericParamTypeDecl = module then
                      [diagnose (AtGenericParam genericParamTypeDecl)
                         note_inverse_preventing_conformance
                         [ArgType nonConformingTy, ArgString (getProtocolName kp)]]
                    else [])
               | GenericTypeParamType None \<Rightarrow> []
               | OtherInterfaceType \<Rightarrow> [])
          | NominalType nominal \<Rightarrow>
              (if isValid (nomLoc nominal) then
                 [diagnose (AtLoc (nomLoc nominal))
                    note_inverse_preventing_conformance_explicit
                    [ArgNominal nominal, ArgString (getProtocolName kp)]]
               else [])
          | StructuralType \<Rightarrow> []))"

section \<open>The storage visitor\<close>

text \<open>
  \<^verbatim>\<open>StorageVisitor::visit\<close> walks the stored properties of a struct or class, or
  the elements with associated values of an enum, and stops at the first member
  for which the visitor's call operator answers true. A call yields its answer
  and the diagnostics it emitted.
\<close>

type_synonym 'd PropertyVisitor = "VarDecl \<Rightarrow> Type \<Rightarrow> bool \<times> 'd list"
type_synonym 'd ElementVisitor = "EnumElementDecl \<Rightarrow> Type \<Rightarrow> bool \<times> 'd list"

fun visitStoredProperties ::
  "'d PropertyVisitor \<Rightarrow> DeclContext \<Rightarrow> VarDecl list \<Rightarrow> bool \<times> 'd list" where
  "visitStoredProperties onProperty dc [] = (False, [])"
| "visitStoredProperties onProperty dc (property # rest) =
     (let propertyType = mapTypeIntoContext dc (valueInterfaceType property);
          (stop, ds) = onProperty property propertyType
      in if stop then (True, ds)
         else (let (r, ds') = visitStoredProperties onProperty dc rest in (r, ds @ ds')))"

fun visitElements ::
  "'d ElementVisitor \<Rightarrow> DeclContext \<Rightarrow> EnumElementDecl list \<Rightarrow> bool \<times> 'd list" where
  "visitElements onElement dc [] = (False, [])"
| "visitElements onElement dc (element # rest) =
     (if \<not> hasAssociatedValues element then visitElements onElement dc rest
      else
        (let elementType = mapTypeIntoContext dc (argumentInterfaceType element);
             (stop, ds) = onElement element elementType
         in if stop then (True, ds)
            else (let (r, ds') = visitElements onElement dc rest in (r, ds @ ds'))))"

fun visitCases ::
  "'d ElementVisitor \<Rightarrow> DeclContext \<Rightarrow> EnumCaseDecl list \<Rightarrow> bool \<times> 'd list" where
  "visitCases onElement dc [] = (False, [])"
| "visitCases onElement dc (caseDecl # rest) =
     (let (stop, ds) = visitElements onElement dc (elements caseDecl)
      in if stop then (True, ds)
         else (let (r, ds') = visitCases onElement dc rest in (r, ds @ ds')))"

definition StorageVisitor_visit ::
  "'d PropertyVisitor \<Rightarrow> 'd ElementVisitor \<Rightarrow> NominalTypeDecl \<Rightarrow> DeclContext \<Rightarrow> bool \<times> 'd list" where
  "StorageVisitor_visit onProperty onElement nominal dc =
     (if declKind nominal = StructDecl \<or> declKind nominal = ClassDecl then
        visitStoredProperties onProperty dc (storedProperties nominal)
      else if declKind nominal = EnumDecl then
        visitCases onElement dc (allCases nominal)
      else (False, []))"

section \<open>Conformance checking\<close>

text \<open>
  \<^verbatim>\<open>LacksMatchingStorage::check\<close>: does this member keep the nominal from
  conforming to \<^verbatim>\<open>IP\<close>? If so the member is diagnosed.
\<close>

definition check ::
  "NominalTypeDecl \<Rightarrow> bool \<Rightarrow> InvertibleProtocolKind \<Rightarrow> ValueDecl \<Rightarrow> Type \<Rightarrow> bool
     \<Rightarrow> bool \<times> Diagnostic list" where
  "check Nominal CanAddInverse IP storage type isEnum =
     (if hasError type then (False, [])
      else if (case IP of
                 Copyable \<Rightarrow> \<not> isNoncopyable type
               | Escapable \<Rightarrow> isEscapable type) then (False, [])
      else
        (True,
         diagnose (AtStorage storage) inverse_type_member_in_conforming_type
           [ArgType type, ArgBool isEnum, ArgIdentifier (getName storage),
            ArgNominal (nominalRef Nominal),
            ArgString (getProtocolName (getKnownProtocolKind IP))]
         # tryEmitContainmentFixits Nominal CanAddInverse type IP))"

text \<open>The two call operators of \<^verbatim>\<open>LacksMatchingStorage\<close>.\<close>

definition checkProperty ::
  "NominalTypeDecl \<Rightarrow> bool \<Rightarrow> InvertibleProtocolKind \<Rightarrow> Diagnostic PropertyVisitor" where
  "checkProperty Nominal CanAddInverse IP property propertyType =
     check Nominal CanAddInverse IP (VarDeclStorage property) propertyType False"

definition checkElement ::
  "NominalTypeDecl \<Rightarrow> bool \<Rightarrow> InvertibleProtocolKind \<Rightarrow> Diagnostic ElementVisitor" where
  "checkElement Nominal CanAddInverse IP element elementType =
     check Nominal CanAddInverse IP (EnumElementStorage element) elementType True"

definition LacksMatchingStorage_visit ::
  "NominalTypeDecl \<Rightarrow> DeclContext \<Rightarrow> bool \<Rightarrow> InvertibleProtocolKind \<Rightarrow> bool \<times> Diagnostic list" where
  "LacksMatchingStorage_visit nom dc canAddInverse ip =
     StorageVisitor_visit (checkProperty nom canAddInverse ip) (checkElement nom canAddInverse ip)
       nom dc"

text \<open>
  The locals of \<^verbatim>\<open>checkInvertibleConformanceCommon\<close>, each as the function
  computes it.
\<close>

definition inverses :: "NominalTypeDecl \<Rightarrow> InvertibleProtocolSet" where
  "inverses nominalDecl =
     (let inv0 = getDirectlyInheritedNominalTypeDecls nominalDecl;
          inv1 = (if hasAttribute nominalDecl MoveOnlyAttr then insert Copyable inv0 else inv0);
          inv2 = (if hasAttribute nominalDecl NonEscapableAttr then insert Escapable inv1 else inv1)
      in inv2)"

definition hasExplicitInverse :: "NominalTypeDecl \<Rightarrow> InvertibleProtocolKind \<Rightarrow> bool" where
  "hasExplicitInverse nominalDecl ip = (ip \<in> inverses nominalDecl)"

fun hasUnconditionalConformance :: "ProtocolConformance \<Rightarrow> bool" where
  "hasUnconditionalConformance (NormalProtocolConformance _ _ reqs) = (reqs = [])"
| "hasUnconditionalConformance (OtherProtocolConformance _) = False"

text \<open>
  \<^verbatim>\<open>normalConf->getLoc()\<close>; the file reads it only where the conformance is
  normal.
\<close>

fun normalConfLoc :: "ProtocolConformance \<Rightarrow> SourceLoc" where
  "normalConfLoc (NormalProtocolConformance _ l _) = l"
| "normalConfLoc (OtherProtocolConformance _) = InvalidLoc"

definition canAddInverse :: "NominalTypeDecl \<Rightarrow> ProtocolConformance \<Rightarrow> InvertibleProtocolKind \<Rightarrow> bool" where
  "canAddInverse nominalDecl conformance ip =
     (\<not> hasExplicitInverse nominalDecl ip \<and> \<not> hasUnconditionalConformance conformance)"

text \<open>The three steps of the function that emit diagnostics.\<close>

definition contradictionDiags ::
  "NominalTypeDecl \<Rightarrow> ProtocolConformance \<Rightarrow> InvertibleProtocolKind \<Rightarrow> Diagnostic list" where
  "contradictionDiags nominalDecl conformance ip =
     (if declKind nominalDecl \<noteq> ClassDecl
         \<or> hasFeature (astContext nominalDecl) MoveOnlyClasses then
        (if hasExplicitInverse nominalDecl ip \<and> hasUnconditionalConformance conformance then
           [diagnose (AtLoc (normalConfLoc conformance)) inverse_but_also_conforms
              [ArgNominal (nominalRef nominalDecl),
               ArgString (getProtocolName (getKnownProtocolKind ip))]]
         else [])
      else [])"

definition deinitDiags ::
  "NominalTypeDecl \<Rightarrow> bool \<Rightarrow> InvertibleProtocolKind \<Rightarrow> Diagnostic list" where
  "deinitDiags nominalDecl canAdd ip =
     (if ip = Copyable then
        (case valueTypeDestructor nominalDecl of
           Some deinit \<Rightarrow>
             diagnose (AtDestructor deinit) copyable_illegal_deinit
               [ArgNominal (nominalRef nominalDecl)]
             # emitAdviceToApplyInverseAfter ip canAdd nominalDecl
         | None \<Rightarrow> [])
      else [])"

text \<open>
  \<^verbatim>\<open>checkInvertibleConformanceCommon\<close>. The result is the list of diagnostics
  emitted, or \<open>None\<close> where one of the function's two assertions fails: the
  conformance is to another protocol than \<^verbatim>\<open>ip\<close>, or the nominal is neither a
  struct, an enum nor a class.
\<close>

definition checkInvertibleConformanceCommon ::
  "DeclContext \<Rightarrow> ProtocolConformance \<Rightarrow> InvertibleProtocolKind \<Rightarrow> Diagnostic list option" where
  "checkInvertibleConformanceCommon dc conformance ip =
     (let kp = getKnownProtocolKind ip;
          proto = getProtocol conformance
      in if proto \<noteq> kp then None
         else
           (let nominalDecl = selfNominalTypeDecl dc
            in if \<not> (declKind nominalDecl = StructDecl \<or> declKind nominalDecl = EnumDecl
                      \<or> declKind nominalDecl = ClassDecl) then None
               else
                 (let ds1 = contradictionDiags nominalDecl conformance ip
                  in if declKind nominalDecl = ClassDecl then Some ds1
                     else
                       (let canAdd = canAddInverse nominalDecl conformance ip;
                            ds2 = deinitDiags nominalDecl canAdd ip;
                            (_, ds3) = LacksMatchingStorage_visit nominalDecl dc canAdd ip
                        in Some (ds1 @ ds2 @ ds3)))))"

definition checkEscapableConformance ::
  "DeclContext \<Rightarrow> ProtocolConformance \<Rightarrow> Diagnostic list option" where
  "checkEscapableConformance dc conformance =
     checkInvertibleConformanceCommon dc conformance Escapable"

definition checkCopyableConformance ::
  "DeclContext \<Rightarrow> ProtocolConformance \<Rightarrow> Diagnostic list option" where
  "checkCopyableConformance dc conformance =
     checkInvertibleConformanceCommon dc conformance Copyable"

section \<open>Example declarations\<close>

text \<open>
  Concrete types and declarations, on which the theorems below are instantiated.
\<close>

definition ex_NonDuplicable :: Type where
  "ex_NonDuplicable =
     \<lparr>typeName = ''NonDuplicable'', hasError = False, isNoncopyable = True, isEscapable = True,
      typeKind = NominalType \<lparr>nomName = ''NonDuplicable'', nomLoc = Loc 10\<rparr>\<rparr>"

definition ex_NonLocal :: Type where
  "ex_NonLocal =
     \<lparr>typeName = ''NonLocal'', hasError = False, isNoncopyable = False, isEscapable = False,
      typeKind = NominalType \<lparr>nomName = ''NonLocal'', nomLoc = Loc 20\<rparr>\<rparr>"

definition ex_Int :: Type where
  "ex_Int =
     \<lparr>typeName = ''Int'', hasError = False, isNoncopyable = False, isEscapable = True,
      typeKind = NominalType \<lparr>nomName = ''Int'', nomLoc = InvalidLoc\<rparr>\<rparr>"

definition ex_ErrorType :: Type where
  "ex_ErrorType =
     \<lparr>typeName = ''<<error type>>'', hasError = True, isNoncopyable = True, isEscapable = False,
      typeKind = StructuralType\<rparr>"

definition ex_decl :: "DeclKind \<Rightarrow> string \<Rightarrow> NominalTypeDecl" where
  "ex_decl k n =
     \<lparr>declKind = k, declName = n, declLoc = Loc 1, inherited = [], bracesStart = Loc 2,
      attrs = [], storedProperties = [], allCases = [], valueTypeDestructor = None,
      parentModule = 0, astContext = \<lparr>langOptsFeatures = []\<rparr>\<rparr>"

definition ex_dc :: "NominalTypeDecl \<Rightarrow> DeclContext" where
  "ex_dc nom = \<lparr>selfNominalTypeDecl = nom, mapTypeIntoContext = (\<lambda>t. t)\<rparr>"

lemmas ex_defs = ex_NonDuplicable_def ex_NonLocal_def ex_Int_def ex_ErrorType_def ex_decl_def ex_dc_def

section \<open>Auxiliary facts\<close>

lemma check_no_hit: "\<not> fst (check N c ip s ty e) \<Longrightarrow> snd (check N c ip s ty e) = []"
  by (simp add: check_def split: if_splits)

lemma emitAdvice_ids:
  "d \<in> set (emitAdviceToApplyInverseAfter ip c nom) \<Longrightarrow> diagID d = add_inverse"
  by (auto simp: emitAdviceToApplyInverseAfter_def addConformanceFixIt_def diagnose_def Let_def
           split: if_splits)

lemma emitAdvice_length:
  "length (emitAdviceToApplyInverseAfter ip c nom) = (if c then 1 else 0)"
  by (simp add: emitAdviceToApplyInverseAfter_def Let_def)

lemma tryEmit_filter_add_inverse:
  "filter (\<lambda>d. diagID d = add_inverse) (tryEmitContainmentFixits nom c ty ip)
     = emitAdviceToApplyInverseAfter ip c nom"
  by (auto simp: tryEmitContainmentFixits_def Let_def diagnose_def filter_id_conv emitAdvice_ids
           split: TypeKind.splits InterfaceType.splits option.splits)

lemma tryEmit_ids:
  "d \<in> set (tryEmitContainmentFixits nom c ty ip) \<Longrightarrow>
     diagID d \<in> {add_inverse, note_inverse_preventing_conformance,
                  note_inverse_preventing_conformance_explicit}"
  by (auto simp: tryEmitContainmentFixits_def Let_def diagnose_def dest: emitAdvice_ids
           split: TypeKind.splits InterfaceType.splits option.splits if_splits)

lemma tryEmit_filter_other:
  "k \<notin> {add_inverse, note_inverse_preventing_conformance,
          note_inverse_preventing_conformance_explicit} \<Longrightarrow>
   filter (\<lambda>d. diagID d = k) (tryEmitContainmentFixits nom c ty ip) = []"
  by (auto simp: filter_empty_conv dest: tryEmit_ids)

lemma checkProperty_quiet:
  "checkProperty N c ip p ty = (False, ds) \<Longrightarrow> ds = []"
  using check_no_hit [of N c ip "VarDeclStorage p" ty False] by (simp add: checkProperty_def)

lemma checkElement_quiet:
  "checkElement N c ip e ty = (False, ds) \<Longrightarrow> ds = []"
  using check_no_hit [of N c ip "EnumElementStorage e" ty True] by (simp add: checkElement_def)

lemma visitStoredProperties_find:
  "visitStoredProperties (checkProperty N c ip) dc ps =
     (case find (\<lambda>p. fst (checkProperty N c ip p (mapTypeIntoContext dc (valueInterfaceType p)))) ps of
        None \<Rightarrow> (False, [])
      | Some p \<Rightarrow> (True, snd (checkProperty N c ip p (mapTypeIntoContext dc (valueInterfaceType p)))))"
proof (induction ps)
  case Nil
  show ?case by simp
next
  case (Cons p ps)
  obtain b ds where eq: "checkProperty N c ip p (mapTypeIntoContext dc (valueInterfaceType p)) = (b, ds)"
    by (cases "checkProperty N c ip p (mapTypeIntoContext dc (valueInterfaceType p))")
  show ?case
  proof (cases b)
    case True
    with eq show ?thesis by simp
  next
    case False
    with eq have "ds = []" by (simp add: checkProperty_quiet)
    with False eq Cons.IH show ?thesis
      by (simp split: option.splits)
  qed
qed

lemma visitElements_find:
  "visitElements (checkElement N c ip) dc es =
     (case find (\<lambda>e. hasAssociatedValues e \<and>
                     fst (checkElement N c ip e (mapTypeIntoContext dc (argumentInterfaceType e)))) es of
        None \<Rightarrow> (False, [])
      | Some e \<Rightarrow> (True, snd (checkElement N c ip e (mapTypeIntoContext dc (argumentInterfaceType e)))))"
proof (induction es)
  case Nil
  show ?case by simp
next
  case (Cons e es)
  obtain b ds where eq: "checkElement N c ip e (mapTypeIntoContext dc (argumentInterfaceType e)) = (b, ds)"
    by (cases "checkElement N c ip e (mapTypeIntoContext dc (argumentInterfaceType e))")
  show ?case
  proof (cases "hasAssociatedValues e")
    case False
    with Cons.IH show ?thesis by simp
  next
    case assoc: True
    show ?thesis
    proof (cases b)
      case True
      with assoc eq show ?thesis by simp
    next
      case False
      with eq have "ds = []" by (simp add: checkElement_quiet)
      with False assoc eq Cons.IH show ?thesis
        by (simp split: option.splits)
    qed
  qed
qed

lemma find_append_cases:
  "find P (xs @ ys) = (case find P xs of None \<Rightarrow> find P ys | Some x \<Rightarrow> Some x)"
  by (induction xs) auto

lemma visitCases_find:
  "visitCases (checkElement N c ip) dc cs =
     (case find (\<lambda>e. hasAssociatedValues e \<and>
                     fst (checkElement N c ip e (mapTypeIntoContext dc (argumentInterfaceType e))))
             (concat (map elements cs)) of
        None \<Rightarrow> (False, [])
      | Some e \<Rightarrow> (True, snd (checkElement N c ip e (mapTypeIntoContext dc (argumentInterfaceType e)))))"
proof (induction cs)
  case Nil
  show ?case by simp
next
  case (Cons cd cs)
  show ?case
    by (simp add: Cons.IH visitElements_find find_append_cases
             split: option.splits)
qed

lemma check_hit:
  "fst (check N c ip s ty e) \<Longrightarrow>
     snd (check N c ip s ty e) =
       diagnose (AtStorage s) inverse_type_member_in_conforming_type
         [ArgType ty, ArgBool e, ArgIdentifier (getName s), ArgNominal (nominalRef N),
          ArgString (getProtocolName (getKnownProtocolKind ip))]
       # tryEmitContainmentFixits N c ty ip"
  by (simp add: check_def split: if_splits)

lemma check_hit_filter:
  assumes "fst (check N c ip s ty e)"
  shows "filter (\<lambda>d. diagID d = inverse_type_member_in_conforming_type) (snd (check N c ip s ty e)) =
           [diagnose (AtStorage s) inverse_type_member_in_conforming_type
              [ArgType ty, ArgBool e, ArgIdentifier (getName s), ArgNominal (nominalRef N),
               ArgString (getProtocolName (getKnownProtocolKind ip))]]"
    and "filter (\<lambda>d. diagID d = copyable_illegal_deinit) (snd (check N c ip s ty e)) = []"
    and "filter (\<lambda>d. diagID d = inverse_but_also_conforms) (snd (check N c ip s ty e)) = []"
    and "filter (\<lambda>d. diagID d = add_inverse) (snd (check N c ip s ty e)) =
           emitAdviceToApplyInverseAfter ip c N"
  using assms
  by (simp_all add: check_hit tryEmit_filter_other tryEmit_filter_add_inverse)
     (simp_all add: diagnose_def)

lemma LacksMatchingStorage_visit_cases:
  "LacksMatchingStorage_visit nom dc c ip = (False, []) \<or>
   (\<exists>s ty e. fst (check nom c ip s ty e) \<and>
      LacksMatchingStorage_visit nom dc c ip = (True, snd (check nom c ip s ty e)))"
  unfolding LacksMatchingStorage_visit_def StorageVisitor_visit_def
  by (auto simp: visitStoredProperties_find visitCases_find checkProperty_def checkElement_def
           split: option.splits dest!: find_Some_iff [THEN iffD1])

lemma visit_filter_storage_le:
  "length (filter (\<lambda>d. diagID d = inverse_type_member_in_conforming_type)
            (snd (LacksMatchingStorage_visit nom dc c ip))) = (if fst (LacksMatchingStorage_visit nom dc c ip) then 1 else 0)"
  using LacksMatchingStorage_visit_cases [of nom dc c ip]
  by (auto simp: check_hit_filter)

lemma visit_filter_deinit:
  "filter (\<lambda>d. diagID d = copyable_illegal_deinit) (snd (LacksMatchingStorage_visit nom dc c ip)) = []"
  using LacksMatchingStorage_visit_cases [of nom dc c ip]
  by (auto simp: check_hit_filter)

lemma visit_filter_contradiction:
  "filter (\<lambda>d. diagID d = inverse_but_also_conforms) (snd (LacksMatchingStorage_visit nom dc c ip)) = []"
  using LacksMatchingStorage_visit_cases [of nom dc c ip]
  by (auto simp: check_hit_filter)

lemma visit_filter_add_inverse:
  "filter (\<lambda>d. diagID d = add_inverse) (snd (LacksMatchingStorage_visit nom dc c ip)) =
     (if fst (LacksMatchingStorage_visit nom dc c ip) then emitAdviceToApplyInverseAfter ip c nom else [])"
  using LacksMatchingStorage_visit_cases [of nom dc c ip]
  by (auto simp: check_hit_filter)

lemma contradictionDiags_filter:
  "filter (\<lambda>d. diagID d = inverse_but_also_conforms) (contradictionDiags nom conf ip) =
     contradictionDiags nom conf ip"
  "filter (\<lambda>d. diagID d = copyable_illegal_deinit) (contradictionDiags nom conf ip) = []"
  "filter (\<lambda>d. diagID d = inverse_type_member_in_conforming_type) (contradictionDiags nom conf ip) = []"
  "filter (\<lambda>d. diagID d = add_inverse) (contradictionDiags nom conf ip) = []"
  by (simp_all add: contradictionDiags_def diagnose_def)

lemma contradictionDiags_length: "length (contradictionDiags nom conf ip) \<le> 1"
  by (simp add: contradictionDiags_def)

lemma emitAdvice_filter:
  "filter (\<lambda>d. diagID d = add_inverse) (emitAdviceToApplyInverseAfter ip c nom) =
     emitAdviceToApplyInverseAfter ip c nom"
  by (simp add: emitAdviceToApplyInverseAfter_def addConformanceFixIt_def diagnose_def Let_def)

lemma emitAdvice_filter_other:
  "k \<noteq> add_inverse \<Longrightarrow>
     filter (\<lambda>d. diagID d = k) (emitAdviceToApplyInverseAfter ip c nom) = []"
  by (simp add: emitAdviceToApplyInverseAfter_def addConformanceFixIt_def diagnose_def Let_def)

lemma deinitDiags_None: "valueTypeDestructor nom = None \<Longrightarrow> deinitDiags nom c ip = []"
  by (simp add: deinitDiags_def)

lemma deinitDiags_Escapable: "deinitDiags nom c Escapable = []"
  by (simp add: deinitDiags_def)

lemma deinitDiags_Copyable_Some:
  "valueTypeDestructor nom = Some deinit \<Longrightarrow>
     deinitDiags nom c Copyable =
       diagnose (AtDestructor deinit) copyable_illegal_deinit [ArgNominal (nominalRef nom)]
       # emitAdviceToApplyInverseAfter Copyable c nom"
  by (simp add: deinitDiags_def)

lemma diagID_diagnose: "diagID (diagnose a k as) = k"
  by (simp add: diagnose_def)

lemma deinitDiags_filter_deinit:
  "filter (\<lambda>d. diagID d = copyable_illegal_deinit) (deinitDiags nom c ip) =
     (case valueTypeDestructor nom of
        Some deinit \<Rightarrow>
          if ip = Copyable then
            [diagnose (AtDestructor deinit) copyable_illegal_deinit [ArgNominal (nominalRef nom)]]
          else []
      | None \<Rightarrow> [])"
proof (cases "valueTypeDestructor nom")
  case None
  then show ?thesis by (simp add: deinitDiags_None)
next
  case (Some deinit)
  show ?thesis
  proof (cases ip)
    case Copyable
    with Some show ?thesis
      by (simp add: deinitDiags_Copyable_Some diagID_diagnose emitAdvice_filter_other)
  next
    case Escapable
    with Some show ?thesis by (simp add: deinitDiags_Escapable)
  qed
qed

lemma deinitDiags_filter_other:
  assumes "k \<noteq> copyable_illegal_deinit" and "k \<noteq> add_inverse"
  shows "filter (\<lambda>d. diagID d = k) (deinitDiags nom c ip) = []"
proof (cases "valueTypeDestructor nom")
  case None
  then show ?thesis by (simp add: deinitDiags_None)
next
  case (Some deinit)
  show ?thesis
  proof (cases ip)
    case Copyable
    with Some assms show ?thesis
      by (simp add: deinitDiags_Copyable_Some diagID_diagnose emitAdvice_filter_other)
  next
    case Escapable
    with Some show ?thesis by (simp add: deinitDiags_Escapable)
  qed
qed

lemma deinitDiags_filter_add_inverse:
  "filter (\<lambda>d. diagID d = add_inverse) (deinitDiags nom c ip) =
     (if ip = Copyable \<and> valueTypeDestructor nom \<noteq> None
      then emitAdviceToApplyInverseAfter ip c nom else [])"
proof (cases "valueTypeDestructor nom")
  case None
  then show ?thesis by (simp add: deinitDiags_None)
next
  case (Some deinit)
  show ?thesis
  proof (cases ip)
    case Copyable
    with Some show ?thesis
      by (simp add: deinitDiags_Copyable_Some diagID_diagnose emitAdvice_filter)
  next
    case Escapable
    with Some show ?thesis by (simp add: deinitDiags_Escapable)
  qed
qed

lemma checkInvertibleConformanceCommon_value:
  assumes "getProtocol conf = getKnownProtocolKind ip"
    and "declKind (selfNominalTypeDecl dc) = StructDecl \<or> declKind (selfNominalTypeDecl dc) = EnumDecl"
  shows "checkInvertibleConformanceCommon dc conf ip =
           Some (contradictionDiags (selfNominalTypeDecl dc) conf ip
                 @ deinitDiags (selfNominalTypeDecl dc)
                     (canAddInverse (selfNominalTypeDecl dc) conf ip) ip
                 @ snd (LacksMatchingStorage_visit (selfNominalTypeDecl dc) dc
                     (canAddInverse (selfNominalTypeDecl dc) conf ip) ip))"
  using assms
  by (auto simp: checkInvertibleConformanceCommon_def Let_def split: prod.splits)

lemma checkInvertibleConformanceCommon_class:
  assumes "getProtocol conf = getKnownProtocolKind ip"
    and "declKind (selfNominalTypeDecl dc) = ClassDecl"
  shows "checkInvertibleConformanceCommon dc conf ip =
           Some (contradictionDiags (selfNominalTypeDecl dc) conf ip)"
  using assms
  by (simp add: checkInvertibleConformanceCommon_def Let_def)

lemma checkInvertibleConformanceCommon_SomeD:
  assumes "checkInvertibleConformanceCommon dc conf ip = Some ds"
  shows "getProtocol conf = getKnownProtocolKind ip"
    and "declKind (selfNominalTypeDecl dc) = StructDecl \<or> declKind (selfNominalTypeDecl dc) = EnumDecl
         \<or> declKind (selfNominalTypeDecl dc) = ClassDecl"
  using assms
  by (auto simp: checkInvertibleConformanceCommon_def Let_def split: if_splits)

lemma fst_check:
  "fst (check N c ip s ty e) =
     (\<not> hasError ty \<and> (case ip of Copyable \<Rightarrow> isNoncopyable ty | Escapable \<Rightarrow> \<not> isEscapable ty))"
  by (simp add: check_def split: InvertibleProtocolKind.splits)

lemmas eval_defs =
  checkInvertibleConformanceCommon_def checkCopyableConformance_def checkEscapableConformance_def
  contradictionDiags_def deinitDiags_def LacksMatchingStorage_visit_def StorageVisitor_visit_def
  checkProperty_def checkElement_def check_def tryEmitContainmentFixits_def
  emitAdviceToApplyInverseAfter_def addConformanceFixIt_def getInheritedEndLoc_def
  canAddInverse_def hasExplicitInverse_def inverses_def getDirectlyInheritedNominalTypeDecls_def
  hasAttribute_def hasFeature_def diagnose_def nominalRef_def Let_def

lemma check_same_header:
  assumes "declName nom' = declName nom" and "declLoc nom' = declLoc nom"
    and "inherited nom' = inherited nom" and "bracesStart nom' = bracesStart nom"
    and "parentModule nom' = parentModule nom"
  shows "check nom' c ip s ty e = check nom c ip s ty e"
  using assms
  by (simp add: check_def tryEmitContainmentFixits_def emitAdviceToApplyInverseAfter_def
        addConformanceFixIt_def getInheritedEndLoc_def nominalRef_def Let_def)

lemma inheritedInverses_set:
  "inheritedInverses es = {ip. \<exists>e \<in> set es. inheritedType e = InverseOf ip}"
  by (induction es) (auto split: InheritedType.splits)

lemma emitAdvice_True:
  "emitAdviceToApplyInverseAfter ip True nom =
     [\<lparr>diagAnchor = AtNominal (nominalRef nom), diagID = add_inverse,
       diagArgs = [ArgNominal (nominalRef nom), ArgString (getProtocolName (getKnownProtocolKind ip))],
       fixIts = [if inherited nom = []
                 then fixItInsert (bracesStart nom)
                        ('': ~'' @ getProtocolName (getKnownProtocolKind ip))
                 else fixItInsertAfter (getInheritedEndLoc nom)
                        ('', ~'' @ getProtocolName (getKnownProtocolKind ip))]\<rparr>]"
  by (simp add: emitAdviceToApplyInverseAfter_def addConformanceFixIt_def diagnose_def Let_def)

lemma emitAdvice_False: "emitAdviceToApplyInverseAfter ip False nom = []"
  by (simp add: emitAdviceToApplyInverseAfter_def)

lemma check_update:
  "check (nom\<lparr>storedProperties := ps\<rparr>) c ip s ty e = check nom c ip s ty e"
  "check (nom\<lparr>allCases := cs\<rparr>) c ip s ty e = check nom c ip s ty e"
  "check (nom\<lparr>valueTypeDestructor := dt\<rparr>) c ip s ty e = check nom c ip s ty e"
  by (rule check_same_header; simp)+

lemma contradictionDiags_update:
  "contradictionDiags (nom\<lparr>storedProperties := ps\<rparr>) conf ip = contradictionDiags nom conf ip"
  "contradictionDiags (nom\<lparr>allCases := cs\<rparr>) conf ip = contradictionDiags nom conf ip"
  "contradictionDiags (nom\<lparr>valueTypeDestructor := dt\<rparr>) conf ip = contradictionDiags nom conf ip"
  by (simp_all add: contradictionDiags_def hasExplicitInverse_def inverses_def hasAttribute_def
        getDirectlyInheritedNominalTypeDecls_def nominalRef_def)

lemma canAddInverse_update:
  "canAddInverse (nom\<lparr>storedProperties := ps\<rparr>) conf ip = canAddInverse nom conf ip"
  "canAddInverse (nom\<lparr>allCases := cs\<rparr>) conf ip = canAddInverse nom conf ip"
  "canAddInverse (nom\<lparr>valueTypeDestructor := dt\<rparr>) conf ip = canAddInverse nom conf ip"
  by (simp_all add: canAddInverse_def hasExplicitInverse_def inverses_def hasAttribute_def
        getDirectlyInheritedNominalTypeDecls_def)

lemma deinitDiags_update:
  "deinitDiags (nom\<lparr>storedProperties := ps\<rparr>) c ip = deinitDiags nom c ip"
  "deinitDiags (nom\<lparr>allCases := cs\<rparr>) c ip = deinitDiags nom c ip"
  by (simp_all add: deinitDiags_def emitAdviceToApplyInverseAfter_def addConformanceFixIt_def
        getInheritedEndLoc_def nominalRef_def Let_def split: option.splits)

lemma LacksMatchingStorage_visit_struct:
  assumes "declKind nom = StructDecl \<or> declKind nom = ClassDecl"
  shows "LacksMatchingStorage_visit nom dc c ip =
     (case find (\<lambda>p. fst (check nom c ip (VarDeclStorage p)
                          (mapTypeIntoContext dc (valueInterfaceType p)) False))
             (storedProperties nom) of
        None \<Rightarrow> (False, [])
      | Some p \<Rightarrow> (True, snd (check nom c ip (VarDeclStorage p)
                          (mapTypeIntoContext dc (valueInterfaceType p)) False)))"
  using assms
  by (simp add: LacksMatchingStorage_visit_def StorageVisitor_visit_def visitStoredProperties_find)
     (simp add: checkProperty_def split: option.splits)

lemma LacksMatchingStorage_visit_enum:
  assumes "declKind nom = EnumDecl"
  shows "LacksMatchingStorage_visit nom dc c ip =
     (case find (\<lambda>e. hasAssociatedValues e \<and>
                     fst (check nom c ip (EnumElementStorage e)
                          (mapTypeIntoContext dc (argumentInterfaceType e)) True))
             (concat (map elements (allCases nom))) of
        None \<Rightarrow> (False, [])
      | Some e \<Rightarrow> (True, snd (check nom c ip (EnumElementStorage e)
                          (mapTypeIntoContext dc (argumentInterfaceType e)) True)))"
  using assms
  by (simp add: LacksMatchingStorage_visit_def StorageVisitor_visit_def visitCases_find)
     (simp add: checkElement_def split: option.splits)

lemma find_first:
  "\<forall>q \<in> set pre. \<not> P q \<Longrightarrow> P p \<Longrightarrow> find P (pre @ p # post) = Some p"
  by (induction pre) auto

lemma find_filter_conj:
  "find (\<lambda>x. Q x \<and> R x) (filter Q xs) = find (\<lambda>x. Q x \<and> R x) xs"
  "find (\<lambda>x. A x \<and> Q x \<and> R x) (filter Q xs) = find (\<lambda>x. A x \<and> Q x \<and> R x) xs"
  by (induction xs) auto

lemma concat_elements_filter:
  "concat (map (elements \<circ> (\<lambda>cd. cd\<lparr>elements := filter Q (elements cd)\<rparr>)) cs) =
     filter Q (concat (map elements cs))"
  by (induction cs) simp_all

lemma LacksMatchingStorage_visit_update:
  "LacksMatchingStorage_visit (nom\<lparr>valueTypeDestructor := dt\<rparr>)
     (dc\<lparr>selfNominalTypeDecl := nom\<lparr>valueTypeDestructor := dt\<rparr>\<rparr>) c ip
   = LacksMatchingStorage_visit nom dc c ip"
proof -
  consider "declKind nom = StructDecl \<or> declKind nom = ClassDecl" | "declKind nom = EnumDecl"
    | "declKind nom \<noteq> StructDecl \<and> declKind nom \<noteq> ClassDecl \<and> declKind nom \<noteq> EnumDecl"
    by blast
  then show ?thesis
  proof cases
    case 1
    then have "declKind (nom\<lparr>valueTypeDestructor := dt\<rparr>) = StructDecl
             \<or> declKind (nom\<lparr>valueTypeDestructor := dt\<rparr>) = ClassDecl" by simp
    then show ?thesis
      using 1 by (simp add: LacksMatchingStorage_visit_struct check_update cong: option.case_cong)
  next
    case 2
    then show ?thesis
      by (simp add: LacksMatchingStorage_visit_enum check_update cong: option.case_cong)
  next
    case 3
    then show ?thesis
      by (simp add: LacksMatchingStorage_visit_def StorageVisitor_visit_def)
  qed
qed

section \<open>The claims\<close>

text \<open>
  C1, as amended. In a check for \<^verbatim>\<open>Escapable\<close>, the per-member predicate
  \<^verbatim>\<open>LacksMatchingStorage::check\<close> reports a member exactly when the member's type
  is not in an error state and is not \<^verbatim>\<open>Escapable\<close>. A reported member is
  diagnosed with one storage violation, anchored at the member; a member that is
  not reported is not diagnosed at all.
\<close>

theorem check_Escapable_polarity:
  "fst (check Nominal CanAddInverse Escapable storage ty isEnum) = (\<not> hasError ty \<and> \<not> isEscapable ty)
   \<and> (fst (check Nominal CanAddInverse Escapable storage ty isEnum) \<longrightarrow>
        filter (\<lambda>d. diagID d = inverse_type_member_in_conforming_type)
          (snd (check Nominal CanAddInverse Escapable storage ty isEnum)) =
        [diagnose (AtStorage storage) inverse_type_member_in_conforming_type
           [ArgType ty, ArgBool isEnum, ArgIdentifier (getName storage),
            ArgNominal (nominalRef Nominal), ArgString ''Escapable'']])
   \<and> (\<not> fst (check Nominal CanAddInverse Escapable storage ty isEnum) \<longrightarrow>
        snd (check Nominal CanAddInverse Escapable storage ty isEnum) = [])"
proof (intro conjI impI)
  show "fst (check Nominal CanAddInverse Escapable storage ty isEnum) = (\<not> hasError ty \<and> \<not> isEscapable ty)"
    by (simp add: fst_check)
next
  assume "fst (check Nominal CanAddInverse Escapable storage ty isEnum)"
  then show "filter (\<lambda>d. diagID d = inverse_type_member_in_conforming_type)
          (snd (check Nominal CanAddInverse Escapable storage ty isEnum)) =
        [diagnose (AtStorage storage) inverse_type_member_in_conforming_type
           [ArgType ty, ArgBool isEnum, ArgIdentifier (getName storage),
            ArgNominal (nominalRef Nominal), ArgString ''Escapable'']]"
    by (simp add: check_hit_filter(1))
next
  assume "\<not> fst (check Nominal CanAddInverse Escapable storage ty isEnum)"
  then show "snd (check Nominal CanAddInverse Escapable storage ty isEnum) = []"
    by (rule check_no_hit)
qed

theorem check_Escapable_polarity_witness:
  "\<not> hasError ex_NonLocal \<and> \<not> isEscapable ex_NonLocal
   \<and> fst (check (ex_decl StructDecl ''Box'') True Escapable
             (VarDeclStorage \<lparr>varName = ''x'', valueInterfaceType = ex_NonLocal\<rparr>) ex_NonLocal False)
   \<and> filter (\<lambda>d. diagID d = inverse_type_member_in_conforming_type)
        (snd (check (ex_decl StructDecl ''Box'') True Escapable
               (VarDeclStorage \<lparr>varName = ''x'', valueInterfaceType = ex_NonLocal\<rparr>) ex_NonLocal False)) =
      [diagnose (AtStorage (VarDeclStorage \<lparr>varName = ''x'', valueInterfaceType = ex_NonLocal\<rparr>))
         inverse_type_member_in_conforming_type
         [ArgType ex_NonLocal, ArgBool False, ArgIdentifier ''x'',
          ArgNominal \<lparr>nomName = ''Box'', nomLoc = Loc 1\<rparr>, ArgString ''Escapable'']]"
  using check_Escapable_polarity [of "ex_decl StructDecl ''Box''" True
          "VarDeclStorage \<lparr>varName = ''x'', valueInterfaceType = ex_NonLocal\<rparr>" ex_NonLocal False]
  by (simp add: ex_defs nominalRef_def)

text \<open>
  C1 as the specification words it fails: a member whose type is \<^verbatim>\<open>Escapable\<close>
  (and valid) is not reported, and nothing is diagnosed.
\<close>

theorem check_Escapable_counterexample:
  "isEscapable ex_Int \<and> \<not> hasError ex_Int
   \<and> check (ex_decl StructDecl ''Box'') True Escapable
        (VarDeclStorage \<lparr>varName = ''x'', valueInterfaceType = ex_Int\<rparr>) ex_Int False = (False, [])"
  by (simp add: check_def ex_defs)

text \<open>
  C2, as amended. For an enum, let \<open>element\<close> be the first element, in
  declaration order, that has associated values whose type is not in an error
  state and is not \<^verbatim>\<open>Escapable\<close>. Checking an unconditional conformance to
  \<^verbatim>\<open>Escapable\<close> emits exactly one storage violation; it is anchored at
  \<open>element\<close> and its \<open>isEnum\<close> argument is true.
\<close>

theorem enum_payload_lacking_Escapable:
  assumes "declKind (selfNominalTypeDecl dc) = EnumDecl"
    and "getProtocol conformance = KPK_Escapable"
    and "hasUnconditionalConformance conformance"
    and "find (\<lambda>e. hasAssociatedValues e
                   \<and> \<not> hasError (mapTypeIntoContext dc (argumentInterfaceType e))
                   \<and> \<not> isEscapable (mapTypeIntoContext dc (argumentInterfaceType e)))
           (concat (map elements (allCases (selfNominalTypeDecl dc)))) = Some element"
  shows "\<exists>ds. checkEscapableConformance dc conformance = Some ds
          \<and> filter (\<lambda>d. diagID d = inverse_type_member_in_conforming_type) ds =
              [diagnose (AtStorage (EnumElementStorage element))
                 inverse_type_member_in_conforming_type
                 [ArgType (mapTypeIntoContext dc (argumentInterfaceType element)),
                  ArgBool True, ArgIdentifier (elementName element),
                  ArgNominal (nominalRef (selfNominalTypeDecl dc)), ArgString ''Escapable'']]"
proof -
  let ?nom = "selfNominalTypeDecl dc"
  let ?c = "canAddInverse ?nom conformance Escapable"
  let ?ty = "mapTypeIntoContext dc (argumentInterfaceType element)"
  have res: "checkEscapableConformance dc conformance =
               Some (contradictionDiags ?nom conformance Escapable @ deinitDiags ?nom ?c Escapable
                     @ snd (LacksMatchingStorage_visit ?nom dc ?c Escapable))"
    using assms(1,2) by (simp add: checkEscapableConformance_def checkInvertibleConformanceCommon_value)
  have bad: "fst (check ?nom ?c Escapable (EnumElementStorage element) ?ty True)"
    using assms(4) by (auto simp: fst_check dest: find_Some_iff [THEN iffD1])
  have walk: "LacksMatchingStorage_visit ?nom dc ?c Escapable =
                (True, snd (check ?nom ?c Escapable (EnumElementStorage element) ?ty True))"
    using assms(1,4) by (simp add: LacksMatchingStorage_visit_enum fst_check)
  show ?thesis
    unfolding res walk
    by (simp add: contradictionDiags_filter deinitDiags_Escapable check_hit_filter(1) [OF bad])
qed

theorem enum_payload_lacking_Escapable_witness:
  "declKind (selfNominalTypeDecl (ex_dc ((ex_decl EnumDecl ''E'')
      \<lparr>allCases := [\<lparr>elements = [\<lparr>elementName = ''a'', hasAssociatedValues = True,
                                    argumentInterfaceType = ex_NonLocal\<rparr>]\<rparr>]\<rparr>))) = EnumDecl
   \<and> getProtocol (NormalProtocolConformance KPK_Escapable (Loc 5) []) = KPK_Escapable
   \<and> hasUnconditionalConformance (NormalProtocolConformance KPK_Escapable (Loc 5) [])
   \<and> checkEscapableConformance
        (ex_dc ((ex_decl EnumDecl ''E'')
           \<lparr>allCases := [\<lparr>elements = [\<lparr>elementName = ''a'', hasAssociatedValues = True,
                                         argumentInterfaceType = ex_NonLocal\<rparr>]\<rparr>]\<rparr>))
        (NormalProtocolConformance KPK_Escapable (Loc 5) [])
      = Some [diagnose (AtStorage (EnumElementStorage
                  \<lparr>elementName = ''a'', hasAssociatedValues = True,
                   argumentInterfaceType = ex_NonLocal\<rparr>))
                inverse_type_member_in_conforming_type
                [ArgType ex_NonLocal, ArgBool True, ArgIdentifier ''a'',
                 ArgNominal \<lparr>nomName = ''E'', nomLoc = Loc 1\<rparr>, ArgString ''Escapable''],
              diagnose (AtLoc (Loc 20)) note_inverse_preventing_conformance_explicit
                [ArgNominal \<lparr>nomName = ''NonLocal'', nomLoc = Loc 20\<rparr>, ArgString ''Escapable'']]"
  using enum_payload_lacking_Escapable
          [of "ex_dc ((ex_decl EnumDecl ''E'')
                 \<lparr>allCases := [\<lparr>elements = [\<lparr>elementName = ''a'', hasAssociatedValues = True,
                                               argumentInterfaceType = ex_NonLocal\<rparr>]\<rparr>]\<rparr>)"
              "NormalProtocolConformance KPK_Escapable (Loc 5) []"
              "\<lparr>elementName = ''a'', hasAssociatedValues = True, argumentInterfaceType = ex_NonLocal\<rparr>"]
  by (simp add: eval_defs ex_defs)

text \<open>
  C2 as the specification words it fails where the payload type is in an error
  state: the enum's one case has a payload whose type is not \<^verbatim>\<open>Escapable\<close>, the
  conformance is unconditional, and nothing is diagnosed, since the per-member
  predicate skips a type in an error state before it asks for the capability.
\<close>

theorem enum_erroneous_payload_counterexample:
  "declKind (ex_decl EnumDecl ''E'') = EnumDecl
   \<and> hasAssociatedValues
        \<lparr>elementName = ''a'', hasAssociatedValues = True, argumentInterfaceType = ex_ErrorType\<rparr>
   \<and> \<not> isEscapable ex_ErrorType
   \<and> hasError ex_ErrorType
   \<and> hasUnconditionalConformance (NormalProtocolConformance KPK_Escapable (Loc 5) [])
   \<and> checkEscapableConformance
        (ex_dc ((ex_decl EnumDecl ''E'')
           \<lparr>allCases := [\<lparr>elements = [\<lparr>elementName = ''a'', hasAssociatedValues = True,
                                         argumentInterfaceType = ex_ErrorType\<rparr>]\<rparr>]\<rparr>))
        (NormalProtocolConformance KPK_Escapable (Loc 5) [])
      = Some []"
  by (simp add: eval_defs ex_defs)

text \<open>
  C3. For a class, whatever its stored properties and whether or not it has a
  destructor, the check emits no storage violation and no destructor violation:
  it emits at most one diagnostic, a contradiction, and that only where the
  feature \<^verbatim>\<open>MoveOnlyClasses\<close> is enabled.
\<close>

theorem class_exempt_from_storage_and_deinit:
  assumes "declKind (selfNominalTypeDecl dc) = ClassDecl"
    and "getProtocol conformance = getKnownProtocolKind ip"
  shows "\<exists>ds. checkInvertibleConformanceCommon dc conformance ip = Some ds
           \<and> filter (\<lambda>d. diagID d = inverse_type_member_in_conforming_type) ds = []
           \<and> filter (\<lambda>d. diagID d = copyable_illegal_deinit) ds = []
           \<and> (\<forall>d \<in> set ds. diagID d = inverse_but_also_conforms)
           \<and> length ds \<le> 1
           \<and> (ds \<noteq> [] \<longrightarrow>
                hasFeature (astContext (selfNominalTypeDecl dc)) MoveOnlyClasses)"
proof -
  let ?ds = "contradictionDiags (selfNominalTypeDecl dc) conformance ip"
  have res: "checkInvertibleConformanceCommon dc conformance ip = Some ?ds"
    using assms by (simp add: checkInvertibleConformanceCommon_class)
  have ids: "\<forall>d \<in> set ?ds. diagID d = inverse_but_also_conforms"
    by (simp add: contradictionDiags_def diagnose_def)
  have gate: "?ds \<noteq> [] \<longrightarrow> hasFeature (astContext (selfNominalTypeDecl dc)) MoveOnlyClasses"
    using assms(1) by (simp add: contradictionDiags_def)
  have len: "length ?ds \<le> 1"
    by (rule contradictionDiags_length)
  show ?thesis
    using res ids gate len
    by (simp add: contradictionDiags_filter)
qed

theorem class_exempt_from_storage_and_deinit_witness:
  "declKind (ex_decl ClassDecl ''Ref'') = ClassDecl
   \<and> getProtocol (NormalProtocolConformance KPK_Copyable (Loc 5) []) = getKnownProtocolKind Copyable
   \<and> checkInvertibleConformanceCommon
        (ex_dc ((ex_decl ClassDecl ''Ref'')
           \<lparr>storedProperties := [\<lparr>varName = ''x'', valueInterfaceType = ex_NonDuplicable\<rparr>],
            valueTypeDestructor := Some \<lparr>deinitLoc = Loc 7\<rparr>\<rparr>))
        (NormalProtocolConformance KPK_Copyable (Loc 5) []) Copyable = Some []
   \<and> hasFeature \<lparr>langOptsFeatures = [MoveOnlyClasses]\<rparr> MoveOnlyClasses
   \<and> checkInvertibleConformanceCommon
        (ex_dc ((ex_decl ClassDecl ''Ref'')
           \<lparr>attrs := [MoveOnlyAttr],
            storedProperties := [\<lparr>varName = ''x'', valueInterfaceType = ex_NonDuplicable\<rparr>],
            valueTypeDestructor := Some \<lparr>deinitLoc = Loc 7\<rparr>,
            astContext := \<lparr>langOptsFeatures = [MoveOnlyClasses]\<rparr>\<rparr>))
        (NormalProtocolConformance KPK_Copyable (Loc 5) []) Copyable
      = Some [diagnose (AtLoc (Loc 5)) inverse_but_also_conforms
                [ArgNominal \<lparr>nomName = ''Ref'', nomLoc = Loc 1\<rparr>, ArgString ''Copyable'']]"
  using class_exempt_from_storage_and_deinit
          [of "ex_dc ((ex_decl ClassDecl ''Ref'')
                 \<lparr>storedProperties := [\<lparr>varName = ''x'', valueInterfaceType = ex_NonDuplicable\<rparr>],
                  valueTypeDestructor := Some \<lparr>deinitLoc = Loc 7\<rparr>\<rparr>)"
              "NormalProtocolConformance KPK_Copyable (Loc 5) []" Copyable]
        class_exempt_from_storage_and_deinit
          [of "ex_dc ((ex_decl ClassDecl ''Ref'')
                 \<lparr>attrs := [MoveOnlyAttr],
                  storedProperties := [\<lparr>varName = ''x'', valueInterfaceType = ex_NonDuplicable\<rparr>],
                  valueTypeDestructor := Some \<lparr>deinitLoc = Loc 7\<rparr>,
                  astContext := \<lparr>langOptsFeatures = [MoveOnlyClasses]\<rparr>\<rparr>)"
              "NormalProtocolConformance KPK_Copyable (Loc 5) []" Copyable]
  by (simp add: checkInvertibleConformanceCommon_def contradictionDiags_def hasExplicitInverse_def
        inverses_def getDirectlyInheritedNominalTypeDecls_def hasAttribute_def hasFeature_def
        diagnose_def nominalRef_def Let_def ex_defs)

text \<open>
  C4. For a struct whose stored properties are \<open>pre @ p # post\<close>, where \<open>p\<close> is
  the first property that disqualifies the conformance (its type is valid and
  noncopyable, respectively not escapable), the check emits exactly one storage
  violation, which names \<open>p\<close>; and the properties after \<open>p\<close> are not examined:
  whatever stands in their place, the diagnostics are the same.
\<close>

theorem struct_storage_short_circuit:
  assumes "declKind (selfNominalTypeDecl dc) = StructDecl"
    and "getProtocol conformance = getKnownProtocolKind ip"
    and "storedProperties (selfNominalTypeDecl dc) = pre @ p # post"
    and "\<forall>q \<in> set pre.
           \<not> (\<not> hasError (mapTypeIntoContext dc (valueInterfaceType q))
              \<and> (case ip of
                    Copyable \<Rightarrow> isNoncopyable (mapTypeIntoContext dc (valueInterfaceType q))
                  | Escapable \<Rightarrow> \<not> isEscapable (mapTypeIntoContext dc (valueInterfaceType q))))"
    and "\<not> hasError (mapTypeIntoContext dc (valueInterfaceType p))
         \<and> (case ip of
               Copyable \<Rightarrow> isNoncopyable (mapTypeIntoContext dc (valueInterfaceType p))
             | Escapable \<Rightarrow> \<not> isEscapable (mapTypeIntoContext dc (valueInterfaceType p)))"
  shows "\<exists>ds. checkInvertibleConformanceCommon dc conformance ip = Some ds
          \<and> filter (\<lambda>d. diagID d = inverse_type_member_in_conforming_type) ds =
              [diagnose (AtStorage (VarDeclStorage p)) inverse_type_member_in_conforming_type
                 [ArgType (mapTypeIntoContext dc (valueInterfaceType p)), ArgBool False,
                  ArgIdentifier (varName p), ArgNominal (nominalRef (selfNominalTypeDecl dc)),
                  ArgString (getProtocolName (getKnownProtocolKind ip))]]
          \<and> (\<forall>post'. checkInvertibleConformanceCommon
                 (dc\<lparr>selfNominalTypeDecl :=
                       (selfNominalTypeDecl dc)\<lparr>storedProperties := pre @ p # post'\<rparr>\<rparr>)
                 conformance ip = Some ds)"
proof -
  let ?nom = "selfNominalTypeDecl dc"
  let ?c = "canAddInverse ?nom conformance ip"
  let ?ty = "mapTypeIntoContext dc (valueInterfaceType p)"
  let ?hit = "snd (check ?nom ?c ip (VarDeclStorage p) ?ty False)"
  let ?ds = "contradictionDiags ?nom conformance ip @ deinitDiags ?nom ?c ip @ ?hit"
  have bad: "fst (check ?nom ?c ip (VarDeclStorage p) ?ty False)"
    using assms(5) by (simp add: fst_check)
  have first: "find (\<lambda>q. fst (check ?nom ?c ip (VarDeclStorage q)
                          (mapTypeIntoContext dc (valueInterfaceType q)) False))
                 (pre @ p # post') = Some p" for post'
    using assms(4) bad by (intro find_first) (simp_all add: fst_check)
  have walk: "LacksMatchingStorage_visit ?nom dc ?c ip = (True, ?hit)"
    using assms(1,3) first [of post] by (simp add: LacksMatchingStorage_visit_struct)
  have res: "checkInvertibleConformanceCommon dc conformance ip = Some ?ds"
    using assms(1,2) walk by (simp add: checkInvertibleConformanceCommon_value)
  have storage: "filter (\<lambda>d. diagID d = inverse_type_member_in_conforming_type) ?ds =
              [diagnose (AtStorage (VarDeclStorage p)) inverse_type_member_in_conforming_type
                 [ArgType ?ty, ArgBool False, ArgIdentifier (varName p), ArgNominal (nominalRef ?nom),
                  ArgString (getProtocolName (getKnownProtocolKind ip))]]"
    by (simp add: contradictionDiags_filter deinitDiags_filter_other check_hit_filter(1) [OF bad])
  have later: "checkInvertibleConformanceCommon
                 (dc\<lparr>selfNominalTypeDecl := ?nom\<lparr>storedProperties := pre @ p # post'\<rparr>\<rparr>)
                 conformance ip = Some ?ds" for post'
  proof -
    let ?nom' = "?nom\<lparr>storedProperties := pre @ p # post'\<rparr>"
    let ?dc' = "dc\<lparr>selfNominalTypeDecl := ?nom'\<rparr>"
    have kind': "declKind ?nom' = StructDecl \<or> declKind ?nom' = ClassDecl" using assms(1) by simp
    have walk': "LacksMatchingStorage_visit ?nom' ?dc' ?c ip = (True, ?hit)"
      using first [of post']
      by (simp add: LacksMatchingStorage_visit_struct [OF kind'] check_update)
    have "checkInvertibleConformanceCommon ?dc' conformance ip =
            Some (contradictionDiags ?nom' conformance ip
                  @ deinitDiags ?nom' (canAddInverse ?nom' conformance ip) ip
                  @ snd (LacksMatchingStorage_visit ?nom' ?dc' (canAddInverse ?nom' conformance ip) ip))"
      using assms(1,2) checkInvertibleConformanceCommon_value [of conformance ip ?dc'] by simp
    then show ?thesis
      by (simp add: contradictionDiags_update canAddInverse_update deinitDiags_update walk')
  qed
  show ?thesis
    using res storage later by blast
qed

theorem struct_storage_short_circuit_witness:
  "declKind (selfNominalTypeDecl (ex_dc ((ex_decl StructDecl ''Pair'')
      \<lparr>storedProperties := [\<lparr>varName = ''x'', valueInterfaceType = ex_NonDuplicable\<rparr>,
                             \<lparr>varName = ''y'', valueInterfaceType = ex_NonDuplicable\<rparr>]\<rparr>))) = StructDecl
   \<and> \<not> hasError ex_NonDuplicable \<and> isNoncopyable ex_NonDuplicable
   \<and> checkInvertibleConformanceCommon
        (ex_dc ((ex_decl StructDecl ''Pair'')
           \<lparr>storedProperties := [\<lparr>varName = ''x'', valueInterfaceType = ex_NonDuplicable\<rparr>,
                                  \<lparr>varName = ''y'', valueInterfaceType = ex_NonDuplicable\<rparr>]\<rparr>))
        (NormalProtocolConformance KPK_Copyable (Loc 5) []) Copyable
      = Some [diagnose (AtStorage (VarDeclStorage \<lparr>varName = ''x'', valueInterfaceType = ex_NonDuplicable\<rparr>))
                inverse_type_member_in_conforming_type
                [ArgType ex_NonDuplicable, ArgBool False, ArgIdentifier ''x'',
                 ArgNominal \<lparr>nomName = ''Pair'', nomLoc = Loc 1\<rparr>, ArgString ''Copyable''],
              diagnose (AtLoc (Loc 10)) note_inverse_preventing_conformance_explicit
                [ArgNominal \<lparr>nomName = ''NonDuplicable'', nomLoc = Loc 10\<rparr>, ArgString ''Copyable'']]
   \<and> checkInvertibleConformanceCommon
        (ex_dc ((ex_decl StructDecl ''Pair'')
           \<lparr>storedProperties := [\<lparr>varName = ''x'', valueInterfaceType = ex_NonDuplicable\<rparr>]\<rparr>))
        (NormalProtocolConformance KPK_Copyable (Loc 5) []) Copyable
      = checkInvertibleConformanceCommon
        (ex_dc ((ex_decl StructDecl ''Pair'')
           \<lparr>storedProperties := [\<lparr>varName = ''x'', valueInterfaceType = ex_NonDuplicable\<rparr>,
                                  \<lparr>varName = ''y'', valueInterfaceType = ex_NonDuplicable\<rparr>]\<rparr>))
        (NormalProtocolConformance KPK_Copyable (Loc 5) []) Copyable"
  using struct_storage_short_circuit
          [of "ex_dc ((ex_decl StructDecl ''Pair'')
                 \<lparr>storedProperties := [\<lparr>varName = ''x'', valueInterfaceType = ex_NonDuplicable\<rparr>,
                                        \<lparr>varName = ''y'', valueInterfaceType = ex_NonDuplicable\<rparr>]\<rparr>)"
              "NormalProtocolConformance KPK_Copyable (Loc 5) []" Copyable
              "[]" "\<lparr>varName = ''x'', valueInterfaceType = ex_NonDuplicable\<rparr>"
              "[\<lparr>varName = ''y'', valueInterfaceType = ex_NonDuplicable\<rparr>]"]
  by (simp add: eval_defs ex_defs)

text \<open>
  C5, as amended. For a struct, an enum, or a class where the feature
  \<^verbatim>\<open>MoveOnlyClasses\<close> is enabled: if the declaration suppresses the capability
  (by an inverse in its inheritance clause or by the legacy attribute) and the
  conformance is unconditional, the check emits exactly one contradiction,
  anchored at the conformance's location, whatever the stored properties and
  enum cases of the declaration are.
\<close>

theorem suppressed_and_unconditional_is_contradiction:
  assumes "declKind (selfNominalTypeDecl dc) = StructDecl
           \<or> declKind (selfNominalTypeDecl dc) = EnumDecl
           \<or> (declKind (selfNominalTypeDecl dc) = ClassDecl
               \<and> hasFeature (astContext (selfNominalTypeDecl dc)) MoveOnlyClasses)"
    and "getProtocol conformance = getKnownProtocolKind ip"
    and "hasExplicitInverse (selfNominalTypeDecl dc) ip"
    and "hasUnconditionalConformance conformance"
  shows "\<forall>ps cs. \<exists>ds.
           checkInvertibleConformanceCommon
             (dc\<lparr>selfNominalTypeDecl :=
                   (selfNominalTypeDecl dc)\<lparr>storedProperties := ps, allCases := cs\<rparr>\<rparr>)
             conformance ip = Some ds
           \<and> filter (\<lambda>d. diagID d = inverse_but_also_conforms) ds =
               [diagnose (AtLoc (normalConfLoc conformance)) inverse_but_also_conforms
                  [ArgNominal (nominalRef (selfNominalTypeDecl dc)),
                   ArgString (getProtocolName (getKnownProtocolKind ip))]]"
proof (intro allI)
  fix ps cs
  let ?nom = "selfNominalTypeDecl dc"
  let ?nom' = "?nom\<lparr>storedProperties := ps, allCases := cs\<rparr>"
  let ?dc' = "dc\<lparr>selfNominalTypeDecl := ?nom'\<rparr>"
  let ?d = "diagnose (AtLoc (normalConfLoc conformance)) inverse_but_also_conforms
                  [ArgNominal (nominalRef ?nom),
                   ArgString (getProtocolName (getKnownProtocolKind ip))]"
  have "contradictionDiags ?nom conformance ip = [?d]"
    using assms(1,3,4) by (auto simp: contradictionDiags_def)
  then have contra: "contradictionDiags ?nom' conformance ip = [?d]"
    by (simp add: contradictionDiags_update)
  show "\<exists>ds. checkInvertibleConformanceCommon ?dc' conformance ip = Some ds
           \<and> filter (\<lambda>d. diagID d = inverse_but_also_conforms) ds = [?d]"
  proof (cases "declKind ?nom = ClassDecl")
    case True
    then have "checkInvertibleConformanceCommon ?dc' conformance ip =
                 Some (contradictionDiags ?nom' conformance ip)"
      using assms(2) checkInvertibleConformanceCommon_class [of conformance ip ?dc'] by simp
    then show ?thesis
      using contra by (simp add: diagID_diagnose)
  next
    case False
    with assms(1) have "declKind ?nom = StructDecl \<or> declKind ?nom = EnumDecl" by blast
    then have "checkInvertibleConformanceCommon ?dc' conformance ip =
                 Some (contradictionDiags ?nom' conformance ip
                  @ deinitDiags ?nom' (canAddInverse ?nom' conformance ip) ip
                  @ snd (LacksMatchingStorage_visit ?nom' ?dc' (canAddInverse ?nom' conformance ip) ip))"
      using assms(2) checkInvertibleConformanceCommon_value [of conformance ip ?dc'] by simp
    then show ?thesis
      using contra
      by (simp add: diagID_diagnose deinitDiags_filter_other visit_filter_contradiction)
  qed
qed

theorem suppressed_and_unconditional_is_contradiction_witness:
  "declKind (selfNominalTypeDecl (ex_dc ((ex_decl StructDecl ''Box'')
      \<lparr>inherited := [\<lparr>inheritedType = InverseOf Copyable, entryEndLoc = Loc 3\<rparr>]\<rparr>))) = StructDecl
   \<and> hasExplicitInverse ((ex_decl StructDecl ''Box'')
        \<lparr>inherited := [\<lparr>inheritedType = InverseOf Copyable, entryEndLoc = Loc 3\<rparr>]\<rparr>) Copyable
   \<and> hasUnconditionalConformance (NormalProtocolConformance KPK_Copyable (Loc 5) [])
   \<and> checkInvertibleConformanceCommon
        (ex_dc ((ex_decl StructDecl ''Box'')
           \<lparr>inherited := [\<lparr>inheritedType = InverseOf Copyable, entryEndLoc = Loc 3\<rparr>],
            storedProperties := [\<lparr>varName = ''x'', valueInterfaceType = ex_Int\<rparr>]\<rparr>))
        (NormalProtocolConformance KPK_Copyable (Loc 5) []) Copyable
      = Some [diagnose (AtLoc (Loc 5)) inverse_but_also_conforms
                [ArgNominal \<lparr>nomName = ''Box'', nomLoc = Loc 1\<rparr>, ArgString ''Copyable'']]"
  using suppressed_and_unconditional_is_contradiction
          [of "ex_dc ((ex_decl StructDecl ''Box'')
                 \<lparr>inherited := [\<lparr>inheritedType = InverseOf Copyable, entryEndLoc = Loc 3\<rparr>]\<rparr>)"
              "NormalProtocolConformance KPK_Copyable (Loc 5) []" Copyable]
  by (simp add: eval_defs ex_defs)

text \<open>
  C5 as the specification words it fails for a class where the feature
  \<^verbatim>\<open>MoveOnlyClasses\<close> is not enabled: the class suppresses \<^verbatim>\<open>Copyable\<close> and
  conforms to it unconditionally, and nothing is diagnosed.
\<close>

theorem class_without_feature_counterexample:
  "hasExplicitInverse ((ex_decl ClassDecl ''Ref'')
        \<lparr>inherited := [\<lparr>inheritedType = InverseOf Copyable, entryEndLoc = Loc 3\<rparr>]\<rparr>) Copyable
   \<and> hasUnconditionalConformance (NormalProtocolConformance KPK_Copyable (Loc 5) [])
   \<and> checkInvertibleConformanceCommon
        (ex_dc ((ex_decl ClassDecl ''Ref'')
           \<lparr>inherited := [\<lparr>inheritedType = InverseOf Copyable, entryEndLoc = Loc 3\<rparr>]\<rparr>))
        (NormalProtocolConformance KPK_Copyable (Loc 5) []) Copyable
      = Some []"
  by (simp add: eval_defs ex_defs)

text \<open>
  C6. For a struct or enum with a destructor: the check for \<^verbatim>\<open>Copyable\<close> emits
  exactly one destructor violation, anchored at the destructor, and it emits the
  same storage violations as for the same declaration without its destructor
  (none where no member's type is noncopyable); the check for \<^verbatim>\<open>Escapable\<close>
  emits no destructor violation.
\<close>

theorem deinit_rule_only_for_Copyable:
  assumes "declKind (selfNominalTypeDecl dc) = StructDecl
           \<or> declKind (selfNominalTypeDecl dc) = EnumDecl"
    and "valueTypeDestructor (selfNominalTypeDecl dc) = Some deinit"
  shows "(getProtocol conformance = KPK_Copyable \<longrightarrow>
           (\<exists>ds ds'.
              checkCopyableConformance dc conformance = Some ds
              \<and> filter (\<lambda>d. diagID d = copyable_illegal_deinit) ds =
                  [diagnose (AtDestructor deinit) copyable_illegal_deinit
                     [ArgNominal (nominalRef (selfNominalTypeDecl dc))]]
              \<and> checkCopyableConformance
                  (dc\<lparr>selfNominalTypeDecl :=
                        (selfNominalTypeDecl dc)\<lparr>valueTypeDestructor := None\<rparr>\<rparr>) conformance
                  = Some ds'
              \<and> filter (\<lambda>d. diagID d = inverse_type_member_in_conforming_type) ds
                  = filter (\<lambda>d. diagID d = inverse_type_member_in_conforming_type) ds'
              \<and> ((\<forall>p \<in> set (storedProperties (selfNominalTypeDecl dc)).
                      \<not> isNoncopyable (mapTypeIntoContext dc (valueInterfaceType p)))
                  \<and> (\<forall>e \<in> set (concat (map elements (allCases (selfNominalTypeDecl dc)))).
                      \<not> isNoncopyable (mapTypeIntoContext dc (argumentInterfaceType e)))
                  \<longrightarrow> filter (\<lambda>d. diagID d = inverse_type_member_in_conforming_type) ds = [])))
       \<and> (getProtocol conformance = KPK_Escapable \<longrightarrow>
           (\<exists>ds. checkEscapableConformance dc conformance = Some ds
              \<and> filter (\<lambda>d. diagID d = copyable_illegal_deinit) ds = []))"
proof (intro conjI impI)
  let ?nom = "selfNominalTypeDecl dc"
  let ?nom' = "?nom\<lparr>valueTypeDestructor := None\<rparr>"
  let ?dc' = "dc\<lparr>selfNominalTypeDecl := ?nom'\<rparr>"
  {
    assume proto: "getProtocol conformance = KPK_Copyable"
    let ?c = "canAddInverse ?nom conformance Copyable"
    let ?walk = "snd (LacksMatchingStorage_visit ?nom dc ?c Copyable)"
    let ?ds = "contradictionDiags ?nom conformance Copyable @ deinitDiags ?nom ?c Copyable @ ?walk"
    let ?ds' = "contradictionDiags ?nom conformance Copyable @ ?walk"
    have res: "checkCopyableConformance dc conformance = Some ?ds"
      using assms(1) proto
      by (simp add: checkCopyableConformance_def checkInvertibleConformanceCommon_value)
    have "checkCopyableConformance ?dc' conformance =
            Some (contradictionDiags ?nom' conformance Copyable
                  @ deinitDiags ?nom' (canAddInverse ?nom' conformance Copyable) Copyable
                  @ snd (LacksMatchingStorage_visit ?nom' ?dc' (canAddInverse ?nom' conformance Copyable) Copyable))"
      using assms(1) proto checkInvertibleConformanceCommon_value [of conformance Copyable ?dc']
      by (simp add: checkCopyableConformance_def)
    then have res': "checkCopyableConformance ?dc' conformance = Some ?ds'"
      by (simp add: contradictionDiags_update canAddInverse_update deinitDiags_None
            LacksMatchingStorage_visit_update)
    have deinit: "filter (\<lambda>d. diagID d = copyable_illegal_deinit) ?ds =
                  [diagnose (AtDestructor deinit) copyable_illegal_deinit [ArgNominal (nominalRef ?nom)]]"
      using assms(2)
      by (simp add: contradictionDiags_filter deinitDiags_filter_deinit visit_filter_deinit)
    have same: "filter (\<lambda>d. diagID d = inverse_type_member_in_conforming_type) ?ds
                  = filter (\<lambda>d. diagID d = inverse_type_member_in_conforming_type) ?ds'"
      by (simp add: deinitDiags_filter_other)
    have conforming:
      "filter (\<lambda>d. diagID d = inverse_type_member_in_conforming_type) ?ds = []"
      if all: "(\<forall>p \<in> set (storedProperties ?nom).
                      \<not> isNoncopyable (mapTypeIntoContext dc (valueInterfaceType p)))
                  \<and> (\<forall>e \<in> set (concat (map elements (allCases ?nom))).
                      \<not> isNoncopyable (mapTypeIntoContext dc (argumentInterfaceType e)))"
    proof -
      have "LacksMatchingStorage_visit ?nom dc ?c Copyable = (False, [])"
        using assms(1) all
        by (auto simp: LacksMatchingStorage_visit_struct LacksMatchingStorage_visit_enum fst_check
              find_None_iff split: option.splits)
      then show ?thesis
        by (simp add: contradictionDiags_filter deinitDiags_filter_other)
    qed
    show "\<exists>ds ds'.
              checkCopyableConformance dc conformance = Some ds
              \<and> filter (\<lambda>d. diagID d = copyable_illegal_deinit) ds =
                  [diagnose (AtDestructor deinit) copyable_illegal_deinit
                     [ArgNominal (nominalRef ?nom)]]
              \<and> checkCopyableConformance ?dc' conformance = Some ds'
              \<and> filter (\<lambda>d. diagID d = inverse_type_member_in_conforming_type) ds
                  = filter (\<lambda>d. diagID d = inverse_type_member_in_conforming_type) ds'
              \<and> ((\<forall>p \<in> set (storedProperties ?nom).
                      \<not> isNoncopyable (mapTypeIntoContext dc (valueInterfaceType p)))
                  \<and> (\<forall>e \<in> set (concat (map elements (allCases ?nom))).
                      \<not> isNoncopyable (mapTypeIntoContext dc (argumentInterfaceType e)))
                  \<longrightarrow> filter (\<lambda>d. diagID d = inverse_type_member_in_conforming_type) ds = [])"
      using res res' deinit same conforming by blast
  }
  {
    assume proto: "getProtocol conformance = KPK_Escapable"
    let ?c = "canAddInverse ?nom conformance Escapable"
    have "checkEscapableConformance dc conformance =
            Some (contradictionDiags ?nom conformance Escapable @ deinitDiags ?nom ?c Escapable
                  @ snd (LacksMatchingStorage_visit ?nom dc ?c Escapable))"
      using assms(1) proto
      by (simp add: checkEscapableConformance_def checkInvertibleConformanceCommon_value)
    then show "\<exists>ds. checkEscapableConformance dc conformance = Some ds
              \<and> filter (\<lambda>d. diagID d = copyable_illegal_deinit) ds = []"
      by (simp add: contradictionDiags_filter deinitDiags_Escapable visit_filter_deinit)
  }
qed

theorem deinit_rule_only_for_Copyable_witness:
  "declKind (selfNominalTypeDecl (ex_dc ((ex_decl StructDecl ''S'')
      \<lparr>storedProperties := [\<lparr>varName = ''x'', valueInterfaceType = ex_Int\<rparr>],
       valueTypeDestructor := Some \<lparr>deinitLoc = Loc 7\<rparr>\<rparr>))) = StructDecl
   \<and> \<not> isNoncopyable ex_Int
   \<and> checkCopyableConformance
        (ex_dc ((ex_decl StructDecl ''S'')
           \<lparr>storedProperties := [\<lparr>varName = ''x'', valueInterfaceType = ex_Int\<rparr>],
            valueTypeDestructor := Some \<lparr>deinitLoc = Loc 7\<rparr>\<rparr>))
        (NormalProtocolConformance KPK_Copyable (Loc 5) [])
      = Some [diagnose (AtDestructor \<lparr>deinitLoc = Loc 7\<rparr>) copyable_illegal_deinit
                [ArgNominal \<lparr>nomName = ''S'', nomLoc = Loc 1\<rparr>]]
   \<and> checkEscapableConformance
        (ex_dc ((ex_decl StructDecl ''S'')
           \<lparr>storedProperties := [\<lparr>varName = ''x'', valueInterfaceType = ex_Int\<rparr>],
            valueTypeDestructor := Some \<lparr>deinitLoc = Loc 7\<rparr>\<rparr>))
        (NormalProtocolConformance KPK_Escapable (Loc 5) [])
      = Some []"
  using deinit_rule_only_for_Copyable
          [of "ex_dc ((ex_decl StructDecl ''S'')
                 \<lparr>storedProperties := [\<lparr>varName = ''x'', valueInterfaceType = ex_Int\<rparr>],
                  valueTypeDestructor := Some \<lparr>deinitLoc = Loc 7\<rparr>\<rparr>)"
              "\<lparr>deinitLoc = Loc 7\<rparr>" "NormalProtocolConformance KPK_Copyable (Loc 5) []"]
        deinit_rule_only_for_Copyable
          [of "ex_dc ((ex_decl StructDecl ''S'')
                 \<lparr>storedProperties := [\<lparr>varName = ''x'', valueInterfaceType = ex_Int\<rparr>],
                  valueTypeDestructor := Some \<lparr>deinitLoc = Loc 7\<rparr>\<rparr>)"
              "\<lparr>deinitLoc = Loc 7\<rparr>" "NormalProtocolConformance KPK_Escapable (Loc 5) []"]
  by (simp add: eval_defs ex_defs)

text \<open>
  C7. \<^verbatim>\<open>canAddInverse\<close> holds exactly when the capability is not among the
  declaration's inverses and the conformance is not unconditional. Without it
  \<^verbatim>\<open>emitAdviceToApplyInverseAfter\<close> emits nothing; with it, one \<^verbatim>\<open>add_inverse\<close>
  note that carries one fix-it. In a whole check the number of \<^verbatim>\<open>add_inverse\<close>
  notes is therefore zero without \<^verbatim>\<open>canAddInverse\<close>, and with it the number of
  destructor and storage violations.
\<close>

theorem canAddInverse_gates_advice:
  "canAddInverse (selfNominalTypeDecl dc) conformance ip =
     (ip \<notin> inverses (selfNominalTypeDecl dc) \<and> \<not> hasUnconditionalConformance conformance)
   \<and> emitAdviceToApplyInverseAfter ip False (selfNominalTypeDecl dc) = []
   \<and> emitAdviceToApplyInverseAfter ip True (selfNominalTypeDecl dc) =
       [\<lparr>diagAnchor = AtNominal (nominalRef (selfNominalTypeDecl dc)), diagID = add_inverse,
         diagArgs = [ArgNominal (nominalRef (selfNominalTypeDecl dc)),
                     ArgString (getProtocolName (getKnownProtocolKind ip))],
         fixIts = [if inherited (selfNominalTypeDecl dc) = []
                   then fixItInsert (bracesStart (selfNominalTypeDecl dc))
                          ('': ~'' @ getProtocolName (getKnownProtocolKind ip))
                   else fixItInsertAfter (getInheritedEndLoc (selfNominalTypeDecl dc))
                          ('', ~'' @ getProtocolName (getKnownProtocolKind ip))]\<rparr>]
   \<and> (checkInvertibleConformanceCommon dc conformance ip = Some ds \<longrightarrow>
        length (filter (\<lambda>d. diagID d = add_inverse) ds) =
          (if canAddInverse (selfNominalTypeDecl dc) conformance ip
           then length (filter (\<lambda>d. diagID d = copyable_illegal_deinit) ds)
                + length (filter (\<lambda>d. diagID d = inverse_type_member_in_conforming_type) ds)
           else 0))"
proof (intro conjI impI)
  let ?nom = "selfNominalTypeDecl dc"
  let ?c = "canAddInverse ?nom conformance ip"
  show "?c = (ip \<notin> inverses ?nom \<and> \<not> hasUnconditionalConformance conformance)"
    by (simp add: canAddInverse_def hasExplicitInverse_def)
  show "emitAdviceToApplyInverseAfter ip False ?nom = []"
    by (rule emitAdvice_False)
  show "emitAdviceToApplyInverseAfter ip True ?nom =
       [\<lparr>diagAnchor = AtNominal (nominalRef ?nom), diagID = add_inverse,
         diagArgs = [ArgNominal (nominalRef ?nom),
                     ArgString (getProtocolName (getKnownProtocolKind ip))],
         fixIts = [if inherited ?nom = []
                   then fixItInsert (bracesStart ?nom)
                          ('': ~'' @ getProtocolName (getKnownProtocolKind ip))
                   else fixItInsertAfter (getInheritedEndLoc ?nom)
                          ('', ~'' @ getProtocolName (getKnownProtocolKind ip))]\<rparr>]"
    by (rule emitAdvice_True)
  assume res: "checkInvertibleConformanceCommon dc conformance ip = Some ds"
  have proto: "getProtocol conformance = getKnownProtocolKind ip"
    using res by (rule checkInvertibleConformanceCommon_SomeD(1))
  have kinds: "declKind ?nom = StructDecl \<or> declKind ?nom = EnumDecl \<or> declKind ?nom = ClassDecl"
    using res by (rule checkInvertibleConformanceCommon_SomeD(2))
  show "length (filter (\<lambda>d. diagID d = add_inverse) ds) =
          (if ?c
           then length (filter (\<lambda>d. diagID d = copyable_illegal_deinit) ds)
                + length (filter (\<lambda>d. diagID d = inverse_type_member_in_conforming_type) ds)
           else 0)"
  proof (cases "declKind ?nom = ClassDecl")
    case True
    with proto res have "ds = contradictionDiags ?nom conformance ip"
      by (simp add: checkInvertibleConformanceCommon_class)
    then show ?thesis
      by (simp add: contradictionDiags_filter)
  next
    case False
    define c where "c = canAddInverse ?nom conformance ip"
    from False kinds proto res have ds:
      "ds = contradictionDiags ?nom conformance ip @ deinitDiags ?nom c ip
            @ snd (LacksMatchingStorage_visit ?nom dc c ip)"
      by (simp add: checkInvertibleConformanceCommon_value c_def)
    have storage: "length (filter (\<lambda>d. diagID d = inverse_type_member_in_conforming_type)
                   (snd (LacksMatchingStorage_visit ?nom dc c ip)))
                   = (if fst (LacksMatchingStorage_visit ?nom dc c ip) then 1 else 0)"
      by (rule visit_filter_storage_le)
    have deinit: "length (filter (\<lambda>d. diagID d = copyable_illegal_deinit) (deinitDiags ?nom c ip))
                   = (if ip = Copyable \<and> valueTypeDestructor ?nom \<noteq> None then 1 else 0)"
      by (simp add: deinitDiags_filter_deinit split: option.splits)
    have advice: "length (filter (\<lambda>d. diagID d = add_inverse) ds) =
            (if ip = Copyable \<and> valueTypeDestructor ?nom \<noteq> None then (if c then 1 else 0) else 0)
            + (if fst (LacksMatchingStorage_visit ?nom dc c ip) then (if c then 1 else 0) else 0)"
      unfolding ds
      by (auto simp: contradictionDiags_filter deinitDiags_filter_add_inverse
            visit_filter_add_inverse emitAdvice_length)
    have primary: "length (filter (\<lambda>d. diagID d = copyable_illegal_deinit) ds)
                + length (filter (\<lambda>d. diagID d = inverse_type_member_in_conforming_type) ds) =
            (if ip = Copyable \<and> valueTypeDestructor ?nom \<noteq> None then 1 else 0)
            + (if fst (LacksMatchingStorage_visit ?nom dc c ip) then 1 else 0)"
      unfolding ds
      by (simp add: contradictionDiags_filter deinitDiags_filter_other
            visit_filter_deinit storage deinit)
    show ?thesis
      unfolding c_def [symmetric] using advice primary by (cases c) simp_all
  qed
qed

theorem canAddInverse_gates_advice_witness:
  "canAddInverse ((ex_decl StructDecl ''S'')
        \<lparr>storedProperties := [\<lparr>varName = ''x'', valueInterfaceType = ex_NonDuplicable\<rparr>],
         valueTypeDestructor := Some \<lparr>deinitLoc = Loc 7\<rparr>\<rparr>)
      (NormalProtocolConformance KPK_Copyable (Loc 5) [''T: Copyable'']) Copyable
   \<and> checkInvertibleConformanceCommon
        (ex_dc ((ex_decl StructDecl ''S'')
           \<lparr>storedProperties := [\<lparr>varName = ''x'', valueInterfaceType = ex_NonDuplicable\<rparr>],
            valueTypeDestructor := Some \<lparr>deinitLoc = Loc 7\<rparr>\<rparr>))
        (NormalProtocolConformance KPK_Copyable (Loc 5) [''T: Copyable'']) Copyable
      = Some [diagnose (AtDestructor \<lparr>deinitLoc = Loc 7\<rparr>) copyable_illegal_deinit
                [ArgNominal \<lparr>nomName = ''S'', nomLoc = Loc 1\<rparr>],
              \<lparr>diagAnchor = AtNominal \<lparr>nomName = ''S'', nomLoc = Loc 1\<rparr>, diagID = add_inverse,
               diagArgs = [ArgNominal \<lparr>nomName = ''S'', nomLoc = Loc 1\<rparr>, ArgString ''Copyable''],
               fixIts = [fixItInsert (Loc 2) '': ~Copyable'']\<rparr>,
              diagnose (AtStorage (VarDeclStorage \<lparr>varName = ''x'', valueInterfaceType = ex_NonDuplicable\<rparr>))
                inverse_type_member_in_conforming_type
                [ArgType ex_NonDuplicable, ArgBool False, ArgIdentifier ''x'',
                 ArgNominal \<lparr>nomName = ''S'', nomLoc = Loc 1\<rparr>, ArgString ''Copyable''],
              \<lparr>diagAnchor = AtNominal \<lparr>nomName = ''S'', nomLoc = Loc 1\<rparr>, diagID = add_inverse,
               diagArgs = [ArgNominal \<lparr>nomName = ''S'', nomLoc = Loc 1\<rparr>, ArgString ''Copyable''],
               fixIts = [fixItInsert (Loc 2) '': ~Copyable'']\<rparr>,
              diagnose (AtLoc (Loc 10)) note_inverse_preventing_conformance_explicit
                [ArgNominal \<lparr>nomName = ''NonDuplicable'', nomLoc = Loc 10\<rparr>, ArgString ''Copyable'']]
   \<and> \<not> canAddInverse ((ex_decl StructDecl ''S'')
        \<lparr>storedProperties := [\<lparr>varName = ''x'', valueInterfaceType = ex_NonDuplicable\<rparr>],
         valueTypeDestructor := Some \<lparr>deinitLoc = Loc 7\<rparr>\<rparr>)
      (NormalProtocolConformance KPK_Copyable (Loc 5) []) Copyable
   \<and> checkInvertibleConformanceCommon
        (ex_dc ((ex_decl StructDecl ''S'')
           \<lparr>storedProperties := [\<lparr>varName = ''x'', valueInterfaceType = ex_NonDuplicable\<rparr>],
            valueTypeDestructor := Some \<lparr>deinitLoc = Loc 7\<rparr>\<rparr>))
        (NormalProtocolConformance KPK_Copyable (Loc 5) []) Copyable
      = Some [diagnose (AtDestructor \<lparr>deinitLoc = Loc 7\<rparr>) copyable_illegal_deinit
                [ArgNominal \<lparr>nomName = ''S'', nomLoc = Loc 1\<rparr>],
              diagnose (AtStorage (VarDeclStorage \<lparr>varName = ''x'', valueInterfaceType = ex_NonDuplicable\<rparr>))
                inverse_type_member_in_conforming_type
                [ArgType ex_NonDuplicable, ArgBool False, ArgIdentifier ''x'',
                 ArgNominal \<lparr>nomName = ''S'', nomLoc = Loc 1\<rparr>, ArgString ''Copyable''],
              diagnose (AtLoc (Loc 10)) note_inverse_preventing_conformance_explicit
                [ArgNominal \<lparr>nomName = ''NonDuplicable'', nomLoc = Loc 10\<rparr>, ArgString ''Copyable'']]"
  using canAddInverse_gates_advice
          [of "ex_dc ((ex_decl StructDecl ''S'')
                 \<lparr>storedProperties := [\<lparr>varName = ''x'', valueInterfaceType = ex_NonDuplicable\<rparr>],
                  valueTypeDestructor := Some \<lparr>deinitLoc = Loc 7\<rparr>\<rparr>)"
              "NormalProtocolConformance KPK_Copyable (Loc 5) [''T: Copyable'']" Copyable
              "[diagnose (AtDestructor \<lparr>deinitLoc = Loc 7\<rparr>) copyable_illegal_deinit
                [ArgNominal \<lparr>nomName = ''S'', nomLoc = Loc 1\<rparr>],
              \<lparr>diagAnchor = AtNominal \<lparr>nomName = ''S'', nomLoc = Loc 1\<rparr>, diagID = add_inverse,
               diagArgs = [ArgNominal \<lparr>nomName = ''S'', nomLoc = Loc 1\<rparr>, ArgString ''Copyable''],
               fixIts = [fixItInsert (Loc 2) '': ~Copyable'']\<rparr>,
              diagnose (AtStorage (VarDeclStorage \<lparr>varName = ''x'', valueInterfaceType = ex_NonDuplicable\<rparr>))
                inverse_type_member_in_conforming_type
                [ArgType ex_NonDuplicable, ArgBool False, ArgIdentifier ''x'',
                 ArgNominal \<lparr>nomName = ''S'', nomLoc = Loc 1\<rparr>, ArgString ''Copyable''],
              \<lparr>diagAnchor = AtNominal \<lparr>nomName = ''S'', nomLoc = Loc 1\<rparr>, diagID = add_inverse,
               diagArgs = [ArgNominal \<lparr>nomName = ''S'', nomLoc = Loc 1\<rparr>, ArgString ''Copyable''],
               fixIts = [fixItInsert (Loc 2) '': ~Copyable'']\<rparr>,
              diagnose (AtLoc (Loc 10)) note_inverse_preventing_conformance_explicit
                [ArgNominal \<lparr>nomName = ''NonDuplicable'', nomLoc = Loc 10\<rparr>, ArgString ''Copyable'']]"]
  by (simp add: eval_defs ex_defs)

text \<open>
  C8. The set \<^verbatim>\<open>inverses\<close> is the union of the inverses that
  \<^verbatim>\<open>getDirectlyInheritedNominalTypeDecls\<close> reports for the inheritance clause, of
  \<^verbatim>\<open>Copyable\<close> where the declaration has the attribute \<^verbatim>\<open>MoveOnlyAttr\<close>, and
  of \<^verbatim>\<open>Escapable\<close> where it has the attribute \<^verbatim>\<open>NonEscapableAttr\<close>; with none
  of the three it is empty. The computation is a total function: it has no
  failing branch.
\<close>

theorem inverses_is_union_of_direct_and_legacy:
  "inverses nominalDecl =
     getDirectlyInheritedNominalTypeDecls nominalDecl
     \<union> (if MoveOnlyAttr \<in> set (attrs nominalDecl) then {Copyable} else {})
     \<union> (if NonEscapableAttr \<in> set (attrs nominalDecl) then {Escapable} else {})
   \<and> (getDirectlyInheritedNominalTypeDecls nominalDecl = {}
        \<and> MoveOnlyAttr \<notin> set (attrs nominalDecl)
        \<and> NonEscapableAttr \<notin> set (attrs nominalDecl) \<longrightarrow> inverses nominalDecl = {})"
  by (auto simp: inverses_def hasAttribute_def Let_def)

theorem inverses_is_union_of_direct_and_legacy_witness:
  "inverses ((ex_decl StructDecl ''Box'')
      \<lparr>inherited := [\<lparr>inheritedType = InverseOf Escapable, entryEndLoc = Loc 3\<rparr>],
       attrs := [MoveOnlyAttr]\<rparr>) = {Copyable, Escapable}
   \<and> inverses ((ex_decl StructDecl ''Box'')\<lparr>attrs := [NonEscapableAttr]\<rparr>) = {Escapable}
   \<and> getDirectlyInheritedNominalTypeDecls (ex_decl StructDecl ''Box'') = {}
   \<and> MoveOnlyAttr \<notin> set (attrs (ex_decl StructDecl ''Box''))
   \<and> NonEscapableAttr \<notin> set (attrs (ex_decl StructDecl ''Box''))
   \<and> inverses (ex_decl StructDecl ''Box'') = {}"
  using inverses_is_union_of_direct_and_legacy
          [of "(ex_decl StructDecl ''Box'')
                 \<lparr>inherited := [\<lparr>inheritedType = InverseOf Escapable, entryEndLoc = Loc 3\<rparr>],
                  attrs := [MoveOnlyAttr]\<rparr>"]
        inverses_is_union_of_direct_and_legacy
          [of "(ex_decl StructDecl ''Box'')\<lparr>attrs := [NonEscapableAttr]\<rparr>"]
        inverses_is_union_of_direct_and_legacy [of "ex_decl StructDecl ''Box''"]
  by (auto simp: eval_defs ex_defs)

text \<open>
  C9. For a member whose type is in an error state the per-member predicate
  answers false and emits nothing; the walk goes on with the members after it;
  and a whole check emits the same diagnostics as for the declaration without
  its members of erroneous type.
\<close>

theorem erroneous_member_is_skipped:
  "(hasError ty \<longrightarrow> check Nominal CanAddInverse IP storage ty isEnum = (False, []))
   \<and> (hasError (mapTypeIntoContext dc (valueInterfaceType property)) \<longrightarrow>
        visitStoredProperties (checkProperty Nominal CanAddInverse IP) dc (property # properties)
        = visitStoredProperties (checkProperty Nominal CanAddInverse IP) dc properties)
   \<and> (hasError (mapTypeIntoContext dc (argumentInterfaceType element)) \<longrightarrow>
        visitElements (checkElement Nominal CanAddInverse IP) dc (element # elems)
        = visitElements (checkElement Nominal CanAddInverse IP) dc elems)
   \<and> checkInvertibleConformanceCommon
        (dc\<lparr>selfNominalTypeDecl := (selfNominalTypeDecl dc)
           \<lparr>storedProperties :=
              filter (\<lambda>p. \<not> hasError (mapTypeIntoContext dc (valueInterfaceType p)))
                (storedProperties (selfNominalTypeDecl dc)),
            allCases :=
              map (\<lambda>cd. cd\<lparr>elements :=
                     filter (\<lambda>e. \<not> hasError (mapTypeIntoContext dc (argumentInterfaceType e)))
                       (elements cd)\<rparr>)
                (allCases (selfNominalTypeDecl dc))\<rparr>\<rparr>) conformance IP
      = checkInvertibleConformanceCommon dc conformance IP"
proof (intro conjI impI)
  assume "hasError ty"
  then show "check Nominal CanAddInverse IP storage ty isEnum = (False, [])"
    by (simp add: check_def)
next
  assume "hasError (mapTypeIntoContext dc (valueInterfaceType property))"
  then show "visitStoredProperties (checkProperty Nominal CanAddInverse IP) dc (property # properties)
        = visitStoredProperties (checkProperty Nominal CanAddInverse IP) dc properties"
    by (simp add: checkProperty_def check_def)
next
  assume "hasError (mapTypeIntoContext dc (argumentInterfaceType element))"
  then show "visitElements (checkElement Nominal CanAddInverse IP) dc (element # elems)
        = visitElements (checkElement Nominal CanAddInverse IP) dc elems"
    by (simp add: checkElement_def check_def)
next
  let ?nom = "selfNominalTypeDecl dc"
  let ?ps = "filter (\<lambda>p. \<not> hasError (mapTypeIntoContext dc (valueInterfaceType p))) (storedProperties ?nom)"
  let ?cs = "map (\<lambda>cd. cd\<lparr>elements :=
                     filter (\<lambda>e. \<not> hasError (mapTypeIntoContext dc (argumentInterfaceType e)))
                       (elements cd)\<rparr>) (allCases ?nom)"
  let ?nom' = "?nom\<lparr>storedProperties := ?ps, allCases := ?cs\<rparr>"
  let ?dc' = "dc\<lparr>selfNominalTypeDecl := ?nom'\<rparr>"
  have kind: "declKind ?nom' = declKind ?nom" by simp
  have walk: "LacksMatchingStorage_visit ?nom' ?dc' c IP = LacksMatchingStorage_visit ?nom dc c IP" for c
  proof -
    consider "declKind ?nom = StructDecl \<or> declKind ?nom = ClassDecl" | "declKind ?nom = EnumDecl"
      | "declKind ?nom \<noteq> StructDecl \<and> declKind ?nom \<noteq> ClassDecl \<and> declKind ?nom \<noteq> EnumDecl"
      by blast
    then show ?thesis
    proof cases
      case 1
      then have "declKind ?nom' = StructDecl \<or> declKind ?nom' = ClassDecl" by simp
      then show ?thesis
        using 1
        by (simp add: LacksMatchingStorage_visit_struct check_update find_filter_conj fst_check
              cong: option.case_cong)
    next
      case 2
      then show ?thesis
        by (simp add: LacksMatchingStorage_visit_enum check_update concat_elements_filter
              find_filter_conj fst_check cong: option.case_cong)
    next
      case 3
      then show ?thesis
        by (simp add: LacksMatchingStorage_visit_def StorageVisitor_visit_def)
    qed
  qed
  show "checkInvertibleConformanceCommon ?dc' conformance IP
      = checkInvertibleConformanceCommon dc conformance IP"
    by (simp add: checkInvertibleConformanceCommon_def Let_def walk
          contradictionDiags_update canAddInverse_update deinitDiags_update)
qed

theorem erroneous_member_is_skipped_witness:
  "hasError ex_ErrorType \<and> isNoncopyable ex_ErrorType
   \<and> check (ex_decl StructDecl ''Box'') True Copyable
        (VarDeclStorage \<lparr>varName = ''e'', valueInterfaceType = ex_ErrorType\<rparr>) ex_ErrorType False
      = (False, [])
   \<and> checkInvertibleConformanceCommon
        (ex_dc ((ex_decl StructDecl ''Box'')
           \<lparr>storedProperties := [\<lparr>varName = ''e'', valueInterfaceType = ex_ErrorType\<rparr>,
                                  \<lparr>varName = ''x'', valueInterfaceType = ex_NonDuplicable\<rparr>]\<rparr>))
        (NormalProtocolConformance KPK_Copyable (Loc 5) []) Copyable
      = Some [diagnose (AtStorage (VarDeclStorage \<lparr>varName = ''x'', valueInterfaceType = ex_NonDuplicable\<rparr>))
                inverse_type_member_in_conforming_type
                [ArgType ex_NonDuplicable, ArgBool False, ArgIdentifier ''x'',
                 ArgNominal \<lparr>nomName = ''Box'', nomLoc = Loc 1\<rparr>, ArgString ''Copyable''],
              diagnose (AtLoc (Loc 10)) note_inverse_preventing_conformance_explicit
                [ArgNominal \<lparr>nomName = ''NonDuplicable'', nomLoc = Loc 10\<rparr>, ArgString ''Copyable'']]"
  using erroneous_member_is_skipped
          [of ex_ErrorType "ex_decl StructDecl ''Box''" True Copyable
              "VarDeclStorage \<lparr>varName = ''e'', valueInterfaceType = ex_ErrorType\<rparr>" False
              "ex_dc ((ex_decl StructDecl ''Box'')
                 \<lparr>storedProperties := [\<lparr>varName = ''e'', valueInterfaceType = ex_ErrorType\<rparr>,
                                        \<lparr>varName = ''x'', valueInterfaceType = ex_NonDuplicable\<rparr>]\<rparr>)"
              "\<lparr>varName = ''e'', valueInterfaceType = ex_ErrorType\<rparr>"
              "[\<lparr>varName = ''x'', valueInterfaceType = ex_NonDuplicable\<rparr>]"]
  by (simp add: eval_defs ex_defs)

text \<open>
  C10. One run of the check emits at most one contradiction, at most one
  destructor violation and at most one storage violation: at most three primary
  violations in all.
\<close>

theorem at_most_one_violation_of_each_kind:
  assumes "checkInvertibleConformanceCommon dc conformance ip = Some ds"
  shows "length (filter (\<lambda>d. diagID d = inverse_but_also_conforms) ds) \<le> 1
       \<and> length (filter (\<lambda>d. diagID d = copyable_illegal_deinit) ds) \<le> 1
       \<and> length (filter (\<lambda>d. diagID d = inverse_type_member_in_conforming_type) ds) \<le> 1
       \<and> length (filter (\<lambda>d. diagID d = inverse_but_also_conforms) ds)
           + length (filter (\<lambda>d. diagID d = copyable_illegal_deinit) ds)
           + length (filter (\<lambda>d. diagID d = inverse_type_member_in_conforming_type) ds) \<le> 3"
proof -
  let ?nom = "selfNominalTypeDecl dc"
  let ?c = "canAddInverse ?nom conformance ip"
  have proto: "getProtocol conformance = getKnownProtocolKind ip"
    using assms by (rule checkInvertibleConformanceCommon_SomeD(1))
  have kinds: "declKind ?nom = StructDecl \<or> declKind ?nom = EnumDecl \<or> declKind ?nom = ClassDecl"
    using assms by (rule checkInvertibleConformanceCommon_SomeD(2))
  have contra: "length (contradictionDiags ?nom conformance ip) \<le> 1"
    by (rule contradictionDiags_length)
  have deinit: "length (filter (\<lambda>d. diagID d = copyable_illegal_deinit) (deinitDiags ?nom ?c ip)) \<le> 1"
    by (simp add: deinitDiags_filter_deinit split: option.splits)
  have storage: "length (filter (\<lambda>d. diagID d = inverse_type_member_in_conforming_type)
                   (snd (LacksMatchingStorage_visit ?nom dc ?c ip))) \<le> 1"
    by (simp add: visit_filter_storage_le)
  show ?thesis
  proof (cases "declKind ?nom = ClassDecl")
    case True
    with proto assms have "ds = contradictionDiags ?nom conformance ip"
      by (simp add: checkInvertibleConformanceCommon_class)
    with contra show ?thesis
      by (simp add: contradictionDiags_filter)
  next
    case False
    with kinds proto assms have
      "ds = contradictionDiags ?nom conformance ip @ deinitDiags ?nom ?c ip
            @ snd (LacksMatchingStorage_visit ?nom dc ?c ip)"
      by (simp add: checkInvertibleConformanceCommon_value)
    with contra deinit storage show ?thesis
      by (simp add: contradictionDiags_filter deinitDiags_filter_other
            visit_filter_deinit visit_filter_contradiction)
  qed
qed

theorem at_most_one_violation_of_each_kind_witness:
  "checkInvertibleConformanceCommon
        (ex_dc ((ex_decl StructDecl ''S'')
           \<lparr>inherited := [\<lparr>inheritedType = InverseOf Copyable, entryEndLoc = Loc 3\<rparr>],
            storedProperties := [\<lparr>varName = ''x'', valueInterfaceType = ex_NonDuplicable\<rparr>,
                                  \<lparr>varName = ''y'', valueInterfaceType = ex_NonDuplicable\<rparr>],
            valueTypeDestructor := Some \<lparr>deinitLoc = Loc 7\<rparr>\<rparr>))
        (NormalProtocolConformance KPK_Copyable (Loc 5) []) Copyable
      = Some [diagnose (AtLoc (Loc 5)) inverse_but_also_conforms
                [ArgNominal \<lparr>nomName = ''S'', nomLoc = Loc 1\<rparr>, ArgString ''Copyable''],
              diagnose (AtDestructor \<lparr>deinitLoc = Loc 7\<rparr>) copyable_illegal_deinit
                [ArgNominal \<lparr>nomName = ''S'', nomLoc = Loc 1\<rparr>],
              diagnose (AtStorage (VarDeclStorage \<lparr>varName = ''x'', valueInterfaceType = ex_NonDuplicable\<rparr>))
                inverse_type_member_in_conforming_type
                [ArgType ex_NonDuplicable, ArgBool False, ArgIdentifier ''x'',
                 ArgNominal \<lparr>nomName = ''S'', nomLoc = Loc 1\<rparr>, ArgString ''Copyable''],
              diagnose (AtLoc (Loc 10)) note_inverse_preventing_conformance_explicit
                [ArgNominal \<lparr>nomName = ''NonDuplicable'', nomLoc = Loc 10\<rparr>, ArgString ''Copyable'']]"
  using at_most_one_violation_of_each_kind
          [of "ex_dc ((ex_decl StructDecl ''S'')
                 \<lparr>inherited := [\<lparr>inheritedType = InverseOf Copyable, entryEndLoc = Loc 3\<rparr>],
                  storedProperties := [\<lparr>varName = ''x'', valueInterfaceType = ex_NonDuplicable\<rparr>,
                                        \<lparr>varName = ''y'', valueInterfaceType = ex_NonDuplicable\<rparr>],
                  valueTypeDestructor := Some \<lparr>deinitLoc = Loc 7\<rparr>\<rparr>)"
              "NormalProtocolConformance KPK_Copyable (Loc 5) []" Copyable
              "[diagnose (AtLoc (Loc 5)) inverse_but_also_conforms
                [ArgNominal \<lparr>nomName = ''S'', nomLoc = Loc 1\<rparr>, ArgString ''Copyable''],
              diagnose (AtDestructor \<lparr>deinitLoc = Loc 7\<rparr>) copyable_illegal_deinit
                [ArgNominal \<lparr>nomName = ''S'', nomLoc = Loc 1\<rparr>],
              diagnose (AtStorage (VarDeclStorage \<lparr>varName = ''x'', valueInterfaceType = ex_NonDuplicable\<rparr>))
                inverse_type_member_in_conforming_type
                [ArgType ex_NonDuplicable, ArgBool False, ArgIdentifier ''x'',
                 ArgNominal \<lparr>nomName = ''S'', nomLoc = Loc 1\<rparr>, ArgString ''Copyable''],
              diagnose (AtLoc (Loc 10)) note_inverse_preventing_conformance_explicit
                [ArgNominal \<lparr>nomName = ''NonDuplicable'', nomLoc = Loc 10\<rparr>, ArgString ''Copyable'']]"]
  by (simp add: eval_defs ex_defs)

end
